theory Spec2Isabelle
  imports Main "HOL-Library.Word" "HOL-Library.Sublist"
begin

section \<open>Values, the outside world and asynchronous computations\<close>

text \<open>
  The server of \<^verbatim>\<open>src/index.ts\<close> and the operations of \<^verbatim>\<open>src/tools.ts\<close> are
  embedded as state-passing functions. A \<^verbatim>\<open>Buffer\<close> is a list of bytes; a JavaScript
  string is a \<open>string\<close> holding its UTF-8 encoding, one character for each byte; a
  thrown value is represented by its message, the text that
  \<^verbatim>\<open>error instanceof Error ? error.message : String(error)\<close> extracts from it.
\<close>

type_synonym bytes = "8 word list"

datatype image_format = PNG | JPG

text \<open>The text that a template literal puts in place of a format: \<^verbatim>\<open>"png"\<close> or \<^verbatim>\<open>"jpg"\<close>.\<close>

fun format_text :: "image_format \<Rightarrow> string" where
  "format_text PNG = ''png''"
| "format_text JPG = ''jpg''"

text \<open>
  The ways in which an asynchronous call can fail. \<open>Rejected\<close> is a rejected promise
  or an error thrown where a \<^verbatim>\<open>catch\<close> of the caller can take it, with its message.
  The other two escape every \<^verbatim>\<open>try\<close> of the program and reach the handlers that
  \<^verbatim>\<open>index.ts\<close> installs with \<^verbatim>\<open>process.on\<close>: an exception thrown from a callback
  outside the awaited promise (with the text that \<^verbatim>\<open>console.error\<close> prints for it), and
  a promise rejected with nobody awaiting it (with the texts of the promise and of
  the reason).
\<close>

datatype failure =
    Rejected string
  | UncaughtException string
  | UnhandledRejection string string

text \<open>
  What the program can observe and change: the files and directories it touches, the
  lines written by \<^verbatim>\<open>console.error\<close>, and the recognition workers it created and
  terminated. \<open>tick\<close> counts the calls made so far to the operating system and to
  the libraries; the outcome of such a call may depend on it, so that the same call
  can succeed once and fail later.
\<close>

record world =
  tick :: nat
  files :: "string \<Rightarrow> bytes option"
  dirs :: "string set"
  console :: "string list"
  created :: nat
  terminate_calls :: "nat list"

text \<open>
  The two AppleScript programs run through \<^verbatim>\<open>osascript\<close> are given by their results.
  The script of \<^verbatim>\<open>captureApplicationScreen\<close> either fails (the application cannot be
  activated, System Events refuses, the shell rejects the command) or counts the
  windows of the process.
\<close>

datatype script_outcome = ScriptFailed string | WindowCount nat

text \<open>
  The collaborators that are not part of the repository: the operating system, the
  file system, \<^verbatim>\<open>screenshot-desktop\<close>, \<^verbatim>\<open>sharp\<close>, \<^verbatim>\<open>tesseract.js\<close>, \<^verbatim>\<open>path\<close>,
  \<^verbatim>\<open>os\<close>, \<^verbatim>\<open>util.format\<close> and the clock. Each effectful one takes the tick at which
  it is called and either fails with a message or gives its result.
  \<^verbatim>\<open>createWorker\<close> is called without an \<^verbatim>\<open>errorHandler\<close>: when the worker reports
  an error while it starts, such as a language that cannot be loaded,
  \<^verbatim>\<open>tesseract.js\<close> throws it from its message handler, outside the promise; so the
  start of a worker can fail in each of the three ways.
\<close>

record env =
  homedir :: string
  path_join :: "string \<Rightarrow> string \<Rightarrow> string"
  util_format :: "string \<Rightarrow> string \<Rightarrow> string"
  toISOString :: "nat \<Rightarrow> string"
  screenshot_lib :: "nat \<Rightarrow> int \<Rightarrow> image_format \<Rightarrow> string + bytes"
  sharp_encode :: "nat \<Rightarrow> image_format \<Rightarrow> bytes \<Rightarrow> string + bytes"
  sharp_preprocess :: "nat \<Rightarrow> bytes \<Rightarrow> string + bytes"
  mkdir_error :: "nat \<Rightarrow> string \<Rightarrow> string option"
  writeFile_error :: "nat \<Rightarrow> string \<Rightarrow> string option"
  readFile_error :: "nat \<Rightarrow> string \<Rightarrow> string option"
  window_script :: "nat \<Rightarrow> string \<Rightarrow> script_outcome"
  process_script :: "nat \<Rightarrow> string + string list"
  screencapture_cmd :: "nat \<Rightarrow> string \<Rightarrow> string + bytes option"
  createWorker_error :: "nat \<Rightarrow> string \<Rightarrow> failure option"
  recognize_lib :: "nat \<Rightarrow> string \<Rightarrow> bytes \<Rightarrow> string + string"
  terminate_error :: "nat \<Rightarrow> nat \<Rightarrow> string option"

text \<open>
  An asynchronous function is a function of the world that returns the new world and
  either the failure (\<open>Inl\<close>) or the value of the promise (\<open>Inr\<close>).
\<close>

type_synonym 'a io = "world \<Rightarrow> (failure + 'a) \<times> world"

definition io_return :: "'a \<Rightarrow> 'a io" where
  "io_return x s = (Inr x, s)"

definition io_throw :: "string \<Rightarrow> 'a io" where
  "io_throw msg s = (Inl (Rejected msg), s)"

text \<open>\<^verbatim>\<open>const x = await m; f(x)\<close>: a rejection of \<open>m\<close> skips \<open>f\<close>.\<close>

definition io_bind :: "'a io \<Rightarrow> ('a \<Rightarrow> 'b io) \<Rightarrow> 'b io" where
  "io_bind m f s = (case m s of (Inl failed, s1) \<Rightarrow> (Inl failed, s1) | (Inr x, s1) \<Rightarrow> f x s1)"

text \<open>
  \<^verbatim>\<open>try { m } catch (error) { h(error) }\<close>: the \<^verbatim>\<open>catch\<close> takes a rejection; a
  failure that escaped the promise passes it by.
\<close>

definition try_catch :: "'a io \<Rightarrow> (string \<Rightarrow> 'a io) \<Rightarrow> 'a io" where
  "try_catch m h s =
     (case m s of
        (Inl (Rejected msg), s1) \<Rightarrow> h msg s1
      | (Inl escaped, s1) \<Rightarrow> (Inl escaped, s1)
      | (Inr x, s1) \<Rightarrow> (Inr x, s1))"

text \<open>
  \<^verbatim>\<open>try { m } finally { fin }\<close>: \<open>fin\<close> runs after \<open>m\<close> has resolved or rejected;
  the outcome is that of \<open>m\<close>, unless \<open>fin\<close> itself fails, which replaces it. After
  a failure that escaped the promise, \<open>fin\<close> does not run.
\<close>

definition try_finally :: "'a io \<Rightarrow> unit io \<Rightarrow> 'a io" where
  "try_finally m fin s =
     (case m s of
        (Inl (UncaughtException text), s1) \<Rightarrow> (Inl (UncaughtException text), s1)
      | (Inl (UnhandledRejection promise reason), s1) \<Rightarrow>
          (Inl (UnhandledRejection promise reason), s1)
      | (r, s1) \<Rightarrow>
          (case fin s1 of (Inl failed, s2) \<Rightarrow> (Inl failed, s2) | (Inr _, s2) \<Rightarrow> (r, s2)))"

text \<open>A collaborator that fails with a message rejects its promise.\<close>

definition rejecting :: "string + 'a \<Rightarrow> failure + 'a" where
  "rejecting r = (case r of Inl msg \<Rightarrow> Inl (Rejected msg) | Inr x \<Rightarrow> Inr x)"

definition bump :: "world \<Rightarrow> world" where
  "bump s = s\<lparr>tick := Suc (tick s)\<rparr>"

subsection \<open>The calls to the collaborators\<close>

text \<open>\<^verbatim>\<open>console.error(line)\<close>.\<close>

definition console_error :: "string \<Rightarrow> unit io" where
  "console_error line s = (Inr (), s\<lparr>console := console s @ [line]\<rparr>)"

text \<open>
  \<^verbatim>\<open>console.error(first, arg)\<close> with two strings prints \<^verbatim>\<open>util.format(first, arg)\<close>:
  \<open>first\<close> is a format string, and when it holds no \<^verbatim>\<open>%\<close> the result is the two
  strings with a space between them.
\<close>

definition console_error_format :: "env \<Rightarrow> string \<Rightarrow> string \<Rightarrow> unit io" where
  "console_error_format e first arg =
     console_error
       (if CHR ''%'' \<in> set first then util_format e first arg else first @ '' '' @ arg)"

text \<open>\<^verbatim>\<open>new Date().toISOString()\<close>.\<close>

definition new_Date_toISOString :: "env \<Rightarrow> string io" where
  "new_Date_toISOString e s = (Inr (toISOString e (tick s)), s)"

text \<open>\<^verbatim>\<open>fs.mkdir(p, { recursive: true })\<close>.\<close>

definition fs_mkdir :: "env \<Rightarrow> string \<Rightarrow> unit io" where
  "fs_mkdir e p s =
     (case mkdir_error e (tick s) p of
        Some msg \<Rightarrow> (Inl (Rejected msg), bump s)
      | None \<Rightarrow> (Inr (), bump (s\<lparr>dirs := insert p (dirs s)\<rparr>)))"

text \<open>\<^verbatim>\<open>fs.writeFile(p, data)\<close>.\<close>

definition fs_writeFile :: "env \<Rightarrow> string \<Rightarrow> bytes \<Rightarrow> unit io" where
  "fs_writeFile e p data s =
     (case writeFile_error e (tick s) p of
        Some msg \<Rightarrow> (Inl (Rejected msg), bump s)
      | None \<Rightarrow> (Inr (), bump (s\<lparr>files := (files s)(p \<mapsto> data)\<rparr>)))"

text \<open>The single quotation mark.\<close>

definition quote :: string where
  "quote = [CHR 0x27]"

text \<open>\<^verbatim>\<open>fs.readFile(p)\<close>: fails when the system refuses or when there is no such file.\<close>

definition fs_readFile :: "env \<Rightarrow> string \<Rightarrow> bytes io" where
  "fs_readFile e p s =
     (case readFile_error e (tick s) p of
        Some msg \<Rightarrow> (Inl (Rejected msg), bump s)
      | None \<Rightarrow>
          (case files s p of
             None \<Rightarrow>
               (Inl (Rejected (''ENOENT: no such file or directory, open '' @ quote @ p
                               @ quote)),
                bump s)
           | Some data \<Rightarrow> (Inr data, bump s)))"

text \<open>\<^verbatim>\<open>screenshot({ screen: display, format })\<close> of \<^verbatim>\<open>screenshot-desktop\<close>.\<close>

definition screenshot :: "env \<Rightarrow> int \<Rightarrow> image_format \<Rightarrow> bytes io" where
  "screenshot e display fmt s = (rejecting (screenshot_lib e (tick s) display fmt), bump s)"

text \<open>
  \<^verbatim>\<open>sharp(imageBuffer).jpeg({ quality: 90 }).toBuffer()\<close> for \<open>JPG\<close> and
  \<^verbatim>\<open>sharp(imageBuffer).png().toBuffer()\<close> for \<open>PNG\<close>.
\<close>

definition sharp_toBuffer :: "env \<Rightarrow> image_format \<Rightarrow> bytes \<Rightarrow> bytes io" where
  "sharp_toBuffer e fmt imageBuffer s =
     (rejecting (sharp_encode e (tick s) fmt imageBuffer), bump s)"

text \<open>\<^verbatim>\<open>sharp(imageBuffer).greyscale().normalize().sharpen().toBuffer()\<close>.\<close>

definition sharp_greyscale_normalize_sharpen :: "env \<Rightarrow> bytes \<Rightarrow> bytes io" where
  "sharp_greyscale_normalize_sharpen e imageBuffer s =
     (rejecting (sharp_preprocess e (tick s) imageBuffer), bump s)"

definition newline :: string where
  "newline = [CHR 0x0A]"

text \<open>
  \<^verbatim>\<open>execAsync(`osascript -e '${script}'`)\<close> with the script of
  \<^verbatim>\<open>captureApplicationScreen\<close>: the script activates the application, makes its
  process frontmost and returns \<^verbatim>\<open>true\<close> when \<^verbatim>\<open>(count of windowList) > 0\<close> and
  \<^verbatim>\<open>false\<close> otherwise. A returned value is printed and the command exits with
  status 0, so the promise rejects only when the script fails.
\<close>

definition osascript_activate :: "env \<Rightarrow> string \<Rightarrow> string io" where
  "osascript_activate e applicationName s =
     (case window_script e (tick s) applicationName of
        ScriptFailed msg \<Rightarrow> (Inl (Rejected msg), bump s)
      | WindowCount n \<Rightarrow> (Inr ((if n > 0 then ''true'' else ''false'') @ newline), bump s))"

text \<open>
  \<^verbatim>\<open>execAsync(`screencapture -o -w "${filepath}"`)\<close>: the command fails, or exits
  with status 0 having written the image to \<open>filepath\<close> or nothing at all.
\<close>

definition screencapture :: "env \<Rightarrow> string \<Rightarrow> unit io" where
  "screencapture e filepath s =
     (case screencapture_cmd e (tick s) filepath of
        Inl msg \<Rightarrow> (Inl (Rejected msg), bump s)
      | Inr None \<Rightarrow> (Inr (), bump s)
      | Inr (Some captured) \<Rightarrow> (Inr (), bump (s\<lparr>files := (files s)(filepath \<mapsto> captured)\<rparr>)))"

text \<open>\<^verbatim>\<open>await new Promise((resolve) => setTimeout(resolve, 500))\<close>.\<close>

definition settle_delay :: "unit io" where
  "settle_delay s = (Inr (), s)"

text \<open>The items of a list with a separator between them, as \<^verbatim>\<open>Array.prototype.join\<close> does.\<close>

fun join_with :: "string \<Rightarrow> string list \<Rightarrow> string" where
  "join_with sep [] = []"
| "join_with sep [x] = x"
| "join_with sep (x # y # ys) = x @ sep @ join_with sep (y # ys)"

text \<open>
  \<^verbatim>\<open>execAsync(`osascript -e '${script}'`)\<close> with the script of
  \<^verbatim>\<open>getRunningApplications\<close>: the script collects \<^verbatim>\<open>name of proc as string\<close> for
  every process whose \<^verbatim>\<open>background only\<close> is false, one entry per process, and
  returns the list; \<^verbatim>\<open>osascript\<close> prints a list of strings with its items
  separated by a comma and a space, followed by a line feed.
\<close>

definition osascript_processes :: "env \<Rightarrow> string io" where
  "osascript_processes e s =
     (case process_script e (tick s) of
        Inl msg \<Rightarrow> (Inl (Rejected msg), bump s)
      | Inr names \<Rightarrow> (Inr (join_with '', '' names @ newline), bump s))"

text \<open>
  \<^verbatim>\<open>createWorker(language)\<close>, \<^verbatim>\<open>worker.recognize(image)\<close> and
  \<^verbatim>\<open>worker.terminate()\<close> of \<^verbatim>\<open>tesseract.js\<close>. A worker is its number in the order of
  creation together with its language; every call of \<^verbatim>\<open>terminate\<close> is recorded with
  the number of the worker, whether it then fails or not. A worker that fails to start
  is not created, however it fails.
\<close>

datatype worker = Worker nat string

definition createWorker :: "env \<Rightarrow> string \<Rightarrow> worker io" where
  "createWorker e language s =
     (case createWorker_error e (tick s) language of
        Some failed \<Rightarrow> (Inl failed, bump s)
      | None \<Rightarrow> (Inr (Worker (created s) language), bump (s\<lparr>created := Suc (created s)\<rparr>)))"

fun worker_recognize :: "env \<Rightarrow> worker \<Rightarrow> bytes \<Rightarrow> string io" where
  "worker_recognize e (Worker k language) processedImage s =
     (rejecting (recognize_lib e (tick s) language processedImage), bump s)"

fun worker_terminate :: "env \<Rightarrow> worker \<Rightarrow> unit io" where
  "worker_terminate e (Worker k language) s =
     (case terminate_error e (tick s) k of
        Some msg \<Rightarrow>
          (Inl (Rejected msg), bump (s\<lparr>terminate_calls := terminate_calls s @ [k]\<rparr>))
      | None \<Rightarrow> (Inr (), bump (s\<lparr>terminate_calls := terminate_calls s @ [k]\<rparr>)))"

subsection \<open>Strings and buffers of JavaScript\<close>

text \<open>
  The code points of ECMAScript's WhiteSpace and LineTerminator, each as its UTF-8
  encoding: U+0009 to U+000D, U+0020, U+00A0, U+1680, U+2000 to U+200A, U+2028,
  U+2029, U+202F, U+205F, U+3000 and U+FEFF.
\<close>

definition white_space :: "string list" where
  "white_space =
     [[CHR 0x09], [CHR 0x0A], [CHR 0x0B], [CHR 0x0C], [CHR 0x0D], [CHR 0x20],
      [CHR 0xC2, CHR 0xA0],
      [CHR 0xE1, CHR 0x9A, CHR 0x80],
      [CHR 0xE2, CHR 0x80, CHR 0x80], [CHR 0xE2, CHR 0x80, CHR 0x81],
      [CHR 0xE2, CHR 0x80, CHR 0x82], [CHR 0xE2, CHR 0x80, CHR 0x83],
      [CHR 0xE2, CHR 0x80, CHR 0x84], [CHR 0xE2, CHR 0x80, CHR 0x85],
      [CHR 0xE2, CHR 0x80, CHR 0x86], [CHR 0xE2, CHR 0x80, CHR 0x87],
      [CHR 0xE2, CHR 0x80, CHR 0x88], [CHR 0xE2, CHR 0x80, CHR 0x89],
      [CHR 0xE2, CHR 0x80, CHR 0x8A],
      [CHR 0xE2, CHR 0x80, CHR 0xA8], [CHR 0xE2, CHR 0x80, CHR 0xA9],
      [CHR 0xE2, CHR 0x80, CHR 0xAF],
      [CHR 0xE2, CHR 0x81, CHR 0x9F],
      [CHR 0xE3, CHR 0x80, CHR 0x80],
      [CHR 0xEF, CHR 0xBB, CHR 0xBF]]"

text \<open>The length of the first of the given words that the string starts with, or 0.\<close>

definition leading :: "string list \<Rightarrow> string \<Rightarrow> nat" where
  "leading ws s = (case List.find (\<lambda>w. prefix w s) ws of None \<Rightarrow> 0 | Some w \<Rightarrow> length w)"

text \<open>Removing the given words from the start of a string for as long as it starts with one.\<close>

function strip :: "string list \<Rightarrow> string \<Rightarrow> string" where
  "strip ws s = (if leading ws s = 0 then s else strip ws (drop (leading ws s) s))"
  by pat_completeness auto
termination
proof (relation "measure (\<lambda>(ws, s). length s)")
  show "wf (measure (\<lambda>(ws, s). length s))" by simp
next
  fix ws :: "string list" and s :: string
  assume pos: "leading ws s \<noteq> 0"
  have "s \<noteq> []"
  proof
    assume "s = []"
    then have "leading ws s = 0"
      by (auto simp: leading_def find_Some_iff split: option.splits)
    with pos show False by simp
  qed
  with pos show "((ws, drop (leading ws s) s), (ws, s)) \<in> measure (\<lambda>(ws, s). length s)"
    by simp
qed

declare strip.simps [simp del]

text \<open>
  \<^verbatim>\<open>String.prototype.trim\<close> removes the white space code points from both ends: from
  the start, and then, reading backwards, from the end.
\<close>

definition trim :: "string \<Rightarrow> string" where
  "trim s = rev (strip (map rev white_space) (rev (strip white_space s)))"

text \<open>\<^verbatim>\<open>s.replace(/[:.]/g, "-")\<close>.\<close>

definition replace_colon_dot :: "string \<Rightarrow> string" where
  "replace_colon_dot s = map (\<lambda>c. if c = CHR '':'' \<or> c = CHR ''.'' then CHR ''-'' else c) s"

text \<open>
  \<^verbatim>\<open>s.split(", ")\<close>: the pieces between the occurrences of the separator, found from
  left to right; \<open>acc\<close> holds the piece being read, reversed.
\<close>

fun split_comma_space :: "string \<Rightarrow> string \<Rightarrow> string list" where
  "split_comma_space acc [] = [rev acc]"
| "split_comma_space acc [c] = [rev (c # acc)]"
| "split_comma_space acc (c # d # cs) =
     (if c = CHR '','' \<and> d = CHR '' '' then rev acc # split_comma_space [] cs
      else split_comma_space (c # acc) (d # cs))"

text \<open>The decimal text of an integer, as a template literal prints it.\<close>

definition digit :: "nat \<Rightarrow> char" where
  "digit n = ''0123456789'' ! (n mod 10)"

fun digits :: "nat \<Rightarrow> string" where
  "digits n = (if n < 10 then [digit n] else digits (n div 10) @ [digit n])"

definition number_text :: "int \<Rightarrow> string" where
  "number_text i = (if i < 0 then ''-'' @ digits (nat (- i)) else digits (nat i))"

text \<open>\<^verbatim>\<open>buffer.toString("base64")\<close>: the base64 encoding of RFC 4648, with padding.\<close>

definition base64_alphabet :: string where
  "base64_alphabet = ''ABCDEFGHIJKLMNOPQRSTUVWXYZabcdefghijklmnopqrstuvwxyz0123456789+/''"

definition sextet :: "nat \<Rightarrow> char" where
  "sextet n = base64_alphabet ! (n mod 64)"

fun toString_base64 :: "bytes \<Rightarrow> string" where
  "toString_base64 [] = []"
| "toString_base64 [a] =
     (let n = unat a * 65536
      in [sextet (n div 262144), sextet (n div 4096), CHR ''='', CHR ''=''])"
| "toString_base64 [a, b] =
     (let n = unat a * 65536 + unat b * 256
      in [sextet (n div 262144), sextet (n div 4096), sextet (n div 64), CHR ''=''])"
| "toString_base64 (a # b # c # rest) =
     (let n = unat a * 65536 + unat b * 256 + unat c
      in [sextet (n div 262144), sextet (n div 4096), sextet (n div 64), sextet n]
         @ toString_base64 rest)"

section \<open>The operations of tools.ts\<close>

record ScreenshotResult =
  path :: string
  base64 :: string
  buffer :: bytes

record ApplicationInfo =
  name :: string
  pid :: nat

text \<open>An optional parameter is \<open>None\<close> when it is \<^verbatim>\<open>undefined\<close>.\<close>

definition or_default :: "'a option \<Rightarrow> 'a \<Rightarrow> 'a" where
  "or_default x d = (case x of None \<Rightarrow> d | Some v \<Rightarrow> v)"

text \<open>The test \<^verbatim>\<open>if (x)\<close> on an optional string: \<^verbatim>\<open>undefined\<close> and \<^verbatim>\<open>""\<close> are falsy.\<close>

definition truthy :: "string option \<Rightarrow> bool" where
  "truthy x \<longleftrightarrow> (case x of None \<Rightarrow> False | Some v \<Rightarrow> v \<noteq> [])"

definition createScreenshotsFolder :: "env \<Rightarrow> string io" where
  "createScreenshotsFolder e =
     (let desktopPath = path_join e (homedir e) ''Desktop'';
          screenshotsFolder = path_join e desktopPath ''mcp-screenshots''
      in try_catch
           (io_bind (fs_mkdir e screenshotsFolder) (\<lambda>_. io_return screenshotsFolder))
           (\<lambda>error. io_throw (''Failed to create screenshots folder: '' @ error)))"

text \<open>
  \<^verbatim>\<open>captureScreen\<close> takes the three optional fields of its \<^verbatim>\<open>options\<close>;
  \<^verbatim>\<open>captureApplicationScreen\<close> is always called with both arguments. The inner
  \<^verbatim>\<open>try\<close> of \<^verbatim>\<open>captureApplicationScreen\<close> gives \<open>None\<close> when the function goes on
  after it and \<open>Some r\<close> when its \<^verbatim>\<open>catch\<close> returns \<open>r\<close> from the function.
\<close>

function captureScreen ::
    "env \<Rightarrow> int option \<Rightarrow> image_format option \<Rightarrow> string option \<Rightarrow> ScreenshotResult io"
  and captureApplicationScreen :: "env \<Rightarrow> string \<Rightarrow> image_format \<Rightarrow> ScreenshotResult io"
where
  "captureScreen e display_option format_option applicationName =
     (if truthy applicationName
      then captureApplicationScreen e (the applicationName) (or_default format_option PNG)
      else
        try_catch
          (io_bind (screenshot e (or_default display_option 0) (or_default format_option PNG))
             (\<lambda>imageBuffer.
           io_bind (sharp_toBuffer e (or_default format_option PNG) imageBuffer)
             (\<lambda>processedBuffer.
           io_bind (createScreenshotsFolder e) (\<lambda>screenshotsFolder.
           io_bind (new_Date_toISOString e) (\<lambda>iso.
             (let timestamp = replace_colon_dot iso;
                  filename = ''screenshot-display-'' @ number_text (or_default display_option 0)
                             @ ''-'' @ timestamp @ ''.''
                             @ format_text (or_default format_option PNG);
                  filepath = path_join e screenshotsFolder filename
              in io_bind (fs_writeFile e filepath processedBuffer) (\<lambda>_.
                 io_return \<lparr>path = filepath,
                            base64 = toString_base64 processedBuffer,
                            buffer = processedBuffer\<rparr>)))))))
          (\<lambda>error. io_throw (''Failed to capture screen: '' @ error)))"
| "captureApplicationScreen e applicationName format =
     try_catch
       (io_bind (createScreenshotsFolder e) (\<lambda>screenshotsFolder.
        io_bind (new_Date_toISOString e) (\<lambda>iso.
          (let timestamp = replace_colon_dot iso;
               filename = applicationName @ ''-'' @ timestamp @ ''.'' @ format_text format;
               filepath = path_join e screenshotsFolder filename
           in io_bind
                (try_catch
                   (io_bind (osascript_activate e applicationName) (\<lambda>_.
                    io_bind settle_delay (\<lambda>_.
                    io_bind (screencapture e filepath) (\<lambda>_. io_return None))))
                   (\<lambda>appError.
                      io_bind
                        (console_error
                           (''App-specific capture failed, falling back to full screen: Error: ''
                            @ appError))
                        (\<lambda>_.
                      io_bind (captureScreen e (Some 0) (Some format) None)
                        (\<lambda>r. io_return (Some r)))))
                (\<lambda>returned.
                   case returned of
                     Some r \<Rightarrow> io_return r
                   | None \<Rightarrow>
                       io_bind (fs_readFile e filepath) (\<lambda>imageBuffer.
                       io_bind (sharp_toBuffer e format imageBuffer) (\<lambda>processedBuffer.
                       io_bind (fs_writeFile e filepath processedBuffer) (\<lambda>_.
                       io_return \<lparr>path = filepath,
                                  base64 = toString_base64 processedBuffer,
                                  buffer = processedBuffer\<rparr>))))))))
       (\<lambda>error. io_throw (''Failed to capture application screen: '' @ error))"
  by pat_completeness auto
termination
  by (relation "measure (\<lambda>x. case x of
                           Inl (e, d, f, a) \<Rightarrow> if truthy a then 2 else 0
                         | Inr _ \<Rightarrow> 1)")
     (auto simp: truthy_def)

declare captureScreen.simps [simp del]
declare captureApplicationScreen.simps [simp del]

text \<open>The input of \<^verbatim>\<open>extractTextFromImage\<close> is a \<^verbatim>\<open>Buffer\<close> or the path of a file.\<close>

datatype image_input = FromBuffer bytes | FromPath string

definition extractTextFromImage :: "env \<Rightarrow> image_input \<Rightarrow> string option \<Rightarrow> string io" where
  "extractTextFromImage e input language_option =
     io_bind (createWorker e (or_default language_option ''eng'')) (\<lambda>worker.
       try_finally
         (try_catch
            (io_bind
               (case input of
                  FromPath p \<Rightarrow> fs_readFile e p
                | FromBuffer b \<Rightarrow> io_return b)
               (\<lambda>imageBuffer.
             io_bind (sharp_greyscale_normalize_sharpen e imageBuffer) (\<lambda>processedImage.
             io_bind (worker_recognize e worker processedImage) (\<lambda>text.
             io_return (trim text)))))
            (\<lambda>error. io_throw (''Failed to extract text from image: '' @ error)))
         (worker_terminate e worker))"

definition captureScreenAndExtractText ::
    "env \<Rightarrow> int option \<Rightarrow> string option \<Rightarrow> string option \<Rightarrow> (string \<times> ScreenshotResult) io"
where
  "captureScreenAndExtractText e display_option language_option applicationName =
     io_bind
       (captureScreen e (Some (or_default display_option 0)) (Some PNG) applicationName)
       (\<lambda>screenshot_result.
     io_bind
       (extractTextFromImage e (FromBuffer (buffer screenshot_result))
          (Some (or_default language_option ''eng'')))
       (\<lambda>text. io_return (text, screenshot_result)))"

text \<open>\<^verbatim>\<open>names.map((name, index) => ({ name, pid: index }))\<close>, counting from \<open>index\<close>.\<close>

fun map_with_index :: "nat \<Rightarrow> string list \<Rightarrow> ApplicationInfo list" where
  "map_with_index index [] = []"
| "map_with_index index (n # ns) = \<lparr>name = n, pid = index\<rparr> # map_with_index (Suc index) ns"

definition getRunningApplications :: "env \<Rightarrow> ApplicationInfo list io" where
  "getRunningApplications e =
     try_catch
       (io_bind (osascript_processes e) (\<lambda>stdout.
          (let appNames = map trim (split_comma_space [] (trim stdout))
           in io_return (map_with_index 0 appNames))))
       (\<lambda>error. io_throw (''Failed to get running applications: '' @ error))"

section \<open>The tool handler of index.ts\<close>

text \<open>
  The arguments of a tool call, each with the type that the handler casts it to; a
  field is \<open>None\<close> when the request leaves it out, and a request without
  \<^verbatim>\<open>arguments\<close> leaves all of them out.
\<close>

record tool_arguments =
  display_arg :: "int option"
  format_arg :: "image_format option"
  applicationName_arg :: "string option"
  imagePath_arg :: "string option"
  language_arg :: "string option"

datatype content_item = TextContent string | ImageContent string string

record tool_response =
  content :: "content_item list"
  isError :: bool

text \<open>The bullet U+2022 of the application list, as its three bytes in UTF-8.\<close>

definition bullet :: string where
  "bullet = [CHR 0xE2, CHR 0x80, CHR 0xA2]"

text \<open>\<^verbatim>\<open>(args?.language as string) || "eng"\<close>: the empty string is replaced as well.\<close>

definition or_text :: "string option \<Rightarrow> string \<Rightarrow> string" where
  "or_text x d = (if truthy x then the x else d)"

text \<open>
  The \<^verbatim>\<open>switch\<close> inside the \<^verbatim>\<open>try\<close> block of the handler registered for
  \<^verbatim>\<open>CallToolRequestSchema\<close>.
\<close>

definition tool_switch :: "env \<Rightarrow> string \<Rightarrow> tool_arguments \<Rightarrow> tool_response io" where
  "tool_switch e tool args =
     (if tool = ''capture_screen'' then
        (let display = or_default (display_arg args) 0;
             format = or_default (format_arg args) PNG
         in io_bind
              (console_error (''Capturing screen - Display: '' @ number_text display
                              @ '', Format: '' @ format_text format))
              (\<lambda>_.
            io_bind (captureScreen e (Some display) (Some format) None) (\<lambda>result.
            io_return
              \<lparr>content =
                 [TextContent
                    (''Screenshot captured successfully!'' @ newline
                     @ ''Path: '' @ path result @ newline
                     @ ''Format: '' @ format_text format @ newline
                     @ ''Display: '' @ number_text display),
                  ImageContent (base64 result) (''image/'' @ format_text format)],
               isError = False\<rparr>)))
      else if tool = ''capture_application_screen'' then
        (if \<not> truthy (applicationName_arg args) then io_throw ''applicationName is required''
         else
           (let applicationName = the (applicationName_arg args);
                format = or_default (format_arg args) PNG
            in io_bind
                 (console_error (''Capturing application screen - App: '' @ applicationName
                                 @ '', Format: '' @ format_text format))
                 (\<lambda>_.
               io_bind (captureApplicationScreen e applicationName format) (\<lambda>result.
               io_return
                 \<lparr>content =
                    [TextContent
                       (''Application screenshot captured successfully!'' @ newline
                        @ ''App: '' @ applicationName @ newline
                        @ ''Path: '' @ path result @ newline
                        @ ''Format: '' @ format_text format),
                     ImageContent (base64 result) (''image/'' @ format_text format)],
                  isError = False\<rparr>))))
      else if tool = ''list_applications'' then
        io_bind (console_error ''Listing running applications'') (\<lambda>_.
        io_bind (getRunningApplications e) (\<lambda>applications.
          (let appList = join_with newline (map (\<lambda>app. bullet @ '' '' @ name app) applications)
           in io_return
                \<lparr>content =
                   [TextContent
                      (''Running applications:'' @ newline @ newline @ appList
                       @ newline @ newline
                       @ ''You can use any of these application names with the ''
                       @ ''capture_application_screen tool.'')],
                 isError = False\<rparr>)))
      else if tool = ''extract_text'' then
        (if \<not> truthy (imagePath_arg args) then io_throw ''imagePath is required''
         else
           (let imagePath = the (imagePath_arg args);
                language = or_text (language_arg args) ''eng''
            in io_bind
                 (console_error (''Extracting text from: '' @ imagePath
                                 @ '', Language: '' @ language))
                 (\<lambda>_.
               io_bind (extractTextFromImage e (FromPath imagePath) (Some language))
                 (\<lambda>extractedText.
               io_return
                 \<lparr>content =
                    [TextContent
                       (''Text extracted successfully from: '' @ imagePath @ newline @ newline
                        @ ''Extracted text:'' @ newline @ extractedText)],
                  isError = False\<rparr>))))
      else if tool = ''capture_screen_and_extract_text'' then
        (let display = or_default (display_arg args) 0;
             language = or_text (language_arg args) ''eng'';
             applicationName = applicationName_arg args
         in io_bind
              (console_error
                 (''Capturing screen and extracting text - Display: '' @ number_text display
                  @ '', Language: '' @ language
                  @ (if truthy applicationName then '', App: '' @ the applicationName else [])))
              (\<lambda>_.
            io_bind (captureScreenAndExtractText e (Some display) (Some language) applicationName)
              (\<lambda>(text, screenshot_result).
            io_return
              \<lparr>content =
                 [TextContent
                    (''Screenshot captured and text extracted successfully!'' @ newline
                     @ ''Path: '' @ path screenshot_result
                     @ (if truthy applicationName
                        then newline @ ''Application: '' @ the applicationName
                        else newline @ ''Display: '' @ number_text display)
                     @ newline @ ''Language: '' @ language @ newline @ newline
                     @ ''Extracted text:'' @ newline @ text),
                  ImageContent (base64 screenshot_result) ''image/png''],
               isError = False\<rparr>)))
      else io_throw (''Unknown tool: '' @ tool))"

text \<open>
  The handler itself: the \<^verbatim>\<open>switch\<close> in a \<^verbatim>\<open>try\<close>, whose \<^verbatim>\<open>catch\<close> logs the message
  with \<^verbatim>\<open>console.error(`Error executing tool '${name}':`, errorMessage)\<close> and
  returns a response with \<^verbatim>\<open>isError: true\<close>. Its result is still an asynchronous
  one: \<open>Inl\<close> is a failure that the handler passes on.
\<close>

definition call_tool_handler :: "env \<Rightarrow> string \<Rightarrow> tool_arguments \<Rightarrow> tool_response io" where
  "call_tool_handler e tool args =
     try_catch (tool_switch e tool args)
       (\<lambda>errorMessage.
          io_bind
            (console_error_format e (''Error executing tool '' @ quote @ tool @ quote @ '':'')
               errorMessage)
            (\<lambda>_.
          io_return
            \<lparr>content =
               [TextContent (''Error executing tool '' @ quote @ tool @ quote @ '': ''
                             @ errorMessage)],
             isError = True\<rparr>))"





declare digits.simps [simp del]

section \<open>Notions of the specification and a sample environment\<close>

text \<open>The folder that \<^verbatim>\<open>createScreenshotsFolder\<close> creates and returns.\<close>

definition screenshots_folder :: "env \<Rightarrow> string" where
  "screenshots_folder e = path_join e (path_join e (homedir e) ''Desktop'') ''mcp-screenshots''"

text \<open>A promise is settled when it is resolved or rejected.\<close>

definition settled :: "failure + 'a \<Rightarrow> bool" where
  "settled r \<longleftrightarrow>
     (case r of
        Inl (UncaughtException error) \<Rightarrow> False
      | Inl (UnhandledRejection promise reason) \<Rightarrow> False
      | _ \<Rightarrow> True)"

text \<open>
  A string is trimmed when it neither starts nor ends with a white space code point.
\<close>

definition trimmed :: "string \<Rightarrow> bool" where
  "trimmed t \<longleftrightarrow> (\<forall>w \<in> set white_space. \<not> prefix w t \<and> \<not> suffix w t)"


text \<open>
  A process name that the comma-separated output cannot blur: it is not empty, neither
  starts nor ends with a white space code point and does not contain a comma followed
  by a space.
\<close>

definition plain_name :: "string \<Rightarrow> bool" where
  "plain_name n \<longleftrightarrow> n \<noteq> [] \<and> trimmed n \<and> \<not> sublist '', '' n"

definition no_arguments :: tool_arguments where
  "no_arguments = \<lparr>display_arg = None, format_arg = None, applicationName_arg = None,
                    imagePath_arg = None, language_arg = None\<rparr>"

text \<open>
  A world in which nothing has happened yet, and an environment in which every
  collaborator works: two displays, Safari with one window, Finder running without a
  window, any other application unknown to \<^verbatim>\<open>osascript\<close>, and two Finder processes.
\<close>

definition world0 :: world where
  "world0 = \<lparr>tick = 0, files = Map.empty, dirs = {}, console = [], created = 0,
             terminate_calls = []\<rparr>"

definition demo_env :: env where
  "demo_env =
     \<lparr>homedir = ''/Users/me'',
      path_join = (\<lambda>a b. a @ ''/'' @ b),
      util_format = (\<lambda>first arg. first @ '' '' @ arg),
      toISOString = (\<lambda>t. ''2025-01-01T12:00:0'' @ [digit t] @ ''.000Z''),
      screenshot_lib =
        (\<lambda>t d f. if d = 0 \<or> d = 1 then Inr [word_of_int d, 2, 3] else Inl ''Invalid display''),
      sharp_encode = (\<lambda>t f raw. Inr ((case f of PNG \<Rightarrow> 0x89 | JPG \<Rightarrow> 0xFF) # raw)),
      sharp_preprocess = (\<lambda>t raw. Inr raw),
      mkdir_error = (\<lambda>t p. None),
      writeFile_error = (\<lambda>t p. None),
      readFile_error = (\<lambda>t p. None),
      window_script =
        (\<lambda>t app. if app = ''Safari'' then WindowCount 1
                 else if app = ''Finder'' then WindowCount 0
                 else ScriptFailed ''Command failed: osascript''),
      process_script = (\<lambda>t. Inr [''Finder'', ''Safari'', ''Finder'']),
      screencapture_cmd = (\<lambda>t p. Inr (Some [7, 7])),
      createWorker_error = (\<lambda>t l. None),
      recognize_lib = (\<lambda>t l img. Inr ('' HELLO WORLD'' @ newline)),
      terminate_error = (\<lambda>t k. None)\<rparr>"


text \<open>
  An environment in which only English can be loaded: for any other language the
  worker reports the error while it starts, and \<^verbatim>\<open>tesseract.js\<close> throws it outside the
  promise.
\<close>

definition unloadable_env :: env where
  "unloadable_env =
     demo_env\<lparr>createWorker_error :=
       (\<lambda>t l. if l = ''eng'' then None
              else Some (UncaughtException ''Error: cannot load the language data''))\<rparr>"


text \<open>
  The two file names of the persisted captures: \<^verbatim>\<open>`${applicationName}-${timestamp}.${format}`\<close>
  and \<^verbatim>\<open>`screenshot-display-${display}-${timestamp}.${format}`\<close>.
\<close>

definition application_filename :: "string \<Rightarrow> string \<Rightarrow> image_format \<Rightarrow> string" where
  "application_filename applicationName isoString format =
     applicationName @ ''-'' @ replace_colon_dot isoString @ ''.'' @ format_text format"

definition fullscreen_filename :: "int \<Rightarrow> string \<Rightarrow> image_format \<Rightarrow> string" where
  "fullscreen_filename display isoString format =
     ''screenshot-display-'' @ number_text display @ ''-'' @ replace_colon_dot isoString
     @ ''.'' @ format_text format"

text \<open>
  The two blocks of \<^verbatim>\<open>captureApplicationScreen\<close> after the file name is computed, named
  so that they can be reasoned about one at a time: the inner \<^verbatim>\<open>try\<close> with its
  fallback, and the re-encoding of the captured file.
\<close>

definition window_capture_or_fallback ::
    "env \<Rightarrow> string \<Rightarrow> image_format \<Rightarrow> string \<Rightarrow> ScreenshotResult option io" where
  "window_capture_or_fallback e applicationName format filepath =
     try_catch
       (io_bind (osascript_activate e applicationName) (\<lambda>_.
        io_bind settle_delay (\<lambda>_.
        io_bind (screencapture e filepath) (\<lambda>_. io_return None))))
       (\<lambda>appError.
          io_bind
            (console_error
               (''App-specific capture failed, falling back to full screen: Error: ''
                @ appError))
            (\<lambda>_.
          io_bind (captureScreen e (Some 0) (Some format) None)
            (\<lambda>r. io_return (Some r))))"

definition encode_captured_file :: "env \<Rightarrow> image_format \<Rightarrow> string \<Rightarrow> ScreenshotResult io" where
  "encode_captured_file e format filepath =
     io_bind (fs_readFile e filepath) (\<lambda>imageBuffer.
     io_bind (sharp_toBuffer e format imageBuffer) (\<lambda>processedBuffer.
     io_bind (fs_writeFile e filepath processedBuffer) (\<lambda>_.
     io_return \<lparr>path = filepath,
                base64 = toString_base64 processedBuffer,
                buffer = processedBuffer\<rparr>)))"

text \<open>
  The \<^verbatim>\<open>try\<close> block of \<^verbatim>\<open>extractTextFromImage\<close> with its \<^verbatim>\<open>catch\<close>, named so that it
  can be reasoned about apart from the \<^verbatim>\<open>finally\<close>.
\<close>

definition recognize_input :: "env \<Rightarrow> image_input \<Rightarrow> worker \<Rightarrow> string io" where
  "recognize_input e input worker =
     try_catch
       (io_bind
          (case input of
             FromPath p \<Rightarrow> fs_readFile e p
           | FromBuffer b \<Rightarrow> io_return b)
          (\<lambda>imageBuffer.
        io_bind (sharp_greyscale_normalize_sharpen e imageBuffer) (\<lambda>processedImage.
        io_bind (worker_recognize e worker processedImage) (\<lambda>text.
        io_return (trim text)))))
       (\<lambda>error. io_throw (''Failed to extract text from image: '' @ error))"

text \<open>
  One of the steps at the operating system fails when \<^verbatim>\<open>captureApplicationScreen\<close>,
  started in world \<open>s\<close> and having created its folder, runs them: the script fails
  at tick \<open>tick s + 1\<close>, or it ends and \<^verbatim>\<open>screencapture\<close> fails at tick
  \<open>tick s + 2\<close>.
\<close>

definition os_step_fails :: "env \<Rightarrow> string \<Rightarrow> image_format \<Rightarrow> world \<Rightarrow> bool" where
  "os_step_fails e applicationName format s \<longleftrightarrow>
     (case window_script e (Suc (tick s)) applicationName of
        ScriptFailed msg \<Rightarrow> True
      | WindowCount n \<Rightarrow>
          (case screencapture_cmd e (Suc (Suc (tick s)))
                  (path_join e (screenshots_folder e)
                     (application_filename applicationName (toISOString e (Suc (tick s)))
                        format))
           of Inl msg \<Rightarrow> True | Inr written \<Rightarrow> False))"

section \<open>Reasoning about asynchronous computations\<close>

lemma io_bind_eq_Inr:
  "io_bind m f s = (Inr r, s') \<longleftrightarrow> (\<exists>x s1. m s = (Inr x, s1) \<and> f x s1 = (Inr r, s'))"
  by (auto simp: io_bind_def split: prod.splits sum.splits)

lemma try_catch_eq_Inr:
  "try_catch m h s = (Inr r, s') \<longleftrightarrow>
     m s = (Inr r, s') \<or>
     (\<exists>err s1. m s = (Inl (Rejected err), s1) \<and> h err s1 = (Inr r, s'))"
  by (auto simp: try_catch_def split: prod.splits sum.splits failure.splits)

lemma try_catch_rethrow_eq_Inr [simp]:
  "try_catch m (\<lambda>err. io_throw (g err)) s = (Inr r, s') \<longleftrightarrow> m s = (Inr r, s')"
  by (auto simp: try_catch_def io_throw_def split: prod.splits sum.splits failure.splits)

lemma try_finally_eq_Inr:
  "try_finally m fin s = (Inr x, s') \<longleftrightarrow>
     (\<exists>s1 u. m s = (Inr x, s1) \<and> fin s1 = (Inr u, s'))"
  by (auto simp: try_finally_def split: prod.splits sum.splits failure.splits)

lemma try_finally_settled:
  assumes "m s = (r1, s1)" and "settled r1"
  shows "try_finally m fin s =
           (case fin s1 of (Inl failed, s2) \<Rightarrow> (Inl failed, s2) | (Inr u, s2) \<Rightarrow> (r1, s2))"
  using assms
  by (auto simp: try_finally_def settled_def split: prod.splits sum.splits failure.splits)

lemma rejecting_eq_Inr [simp]: "rejecting r = Inr x \<longleftrightarrow> r = Inr x"
  by (auto simp: rejecting_def split: sum.splits)

lemma io_return_eq [simp]: "io_return x s = (r, s') \<longleftrightarrow> r = Inr x \<and> s' = s"
  by (auto simp: io_return_def)

lemma pair_from_fst: "fst p = a \<Longrightarrow> p = (a, snd p)"
  by (cases p) simp

lemma fs_writeFile_Inr: "fs_writeFile e p b s = (Inr u, s') \<Longrightarrow> files s' p = Some b"
  by (auto simp: fs_writeFile_def bump_def split: option.splits)

lemma createScreenshotsFolder_Inr:
  "createScreenshotsFolder e s = (Inr x, s') \<Longrightarrow> x = screenshots_folder e"
  by (auto simp: createScreenshotsFolder_def screenshots_folder_def Let_def io_bind_eq_Inr)

text \<open>The definitions that \<open>simp\<close> unfolds to run the program on a given environment.\<close>

lemmas run_defs =
  captureScreen.simps captureApplicationScreen.simps extractTextFromImage_def
  captureScreenAndExtractText_def getRunningApplications_def createScreenshotsFolder_def
  tool_switch_def call_tool_handler_def
  io_bind_def io_return_def io_throw_def try_catch_def try_finally_def bump_def
  sextet_def base64_alphabet_def
  console_error_def new_Date_toISOString_def fs_mkdir_def fs_writeFile_def fs_readFile_def
  screenshot_def sharp_toBuffer_def sharp_greyscale_normalize_sharpen_def
  osascript_activate_def screencapture_def settle_delay_def osascript_processes_def
  createWorker_def or_default_def or_text_def truthy_def replace_colon_dot_def
  number_text_def digits.simps digit_def newline_def quote_def Let_def
  rejecting_def console_error_format_def
  demo_env_def world0_def no_arguments_def

text \<open>The definitions that \<open>simp\<close> unfolds to trim a given string.\<close>

lemmas trim_defs = trim_def strip.simps leading_def white_space_def

section \<open>The shape of captureApplicationScreen\<close>

lemma captureApplicationScreen_blocks:
  "captureApplicationScreen e app fmt =
     try_catch
       (io_bind (createScreenshotsFolder e) (\<lambda>folder.
        io_bind (new_Date_toISOString e) (\<lambda>iso.
        io_bind
          (window_capture_or_fallback e app fmt
             (path_join e folder (application_filename app iso fmt)))
          (\<lambda>returned.
             case returned of
               Some r \<Rightarrow> io_return r
             | None \<Rightarrow>
                 encode_captured_file e fmt
                   (path_join e folder (application_filename app iso fmt))))))
       (\<lambda>error. io_throw (''Failed to capture application screen: '' @ error))"
  unfolding captureApplicationScreen.simps window_capture_or_fallback_def
    encode_captured_file_def application_filename_def Let_def
  by (rule refl)

lemma window_capture_or_fallback_Some:
  assumes "window_capture_or_fallback e app fmt p s = (Inr (Some r), s')"
  shows "\<exists>sa. captureScreen e (Some 0) (Some fmt) None sa = (Inr r, s')"
  using assms
  by (auto simp: window_capture_or_fallback_def try_catch_eq_Inr io_bind_eq_Inr)

lemma encode_captured_file_Inr:
  assumes "encode_captured_file e fmt p s = (Inr r, s')"
  shows "path r = p \<and> (\<exists>k raw. sharp_encode e k fmt raw = Inr (buffer r))"
  using assms
  by (auto simp: encode_captured_file_def io_bind_eq_Inr sharp_toBuffer_def) blast

text \<open>
  A successful \<^verbatim>\<open>captureApplicationScreen\<close> returns either what the fallback
  \<^verbatim>\<open>captureScreen({ display: 0, format })\<close> returned or the re-encoded file of the
  window capture.
\<close>

lemma application_capture_cases:
  assumes "captureApplicationScreen e app fmt s = (Inr r, s')"
  shows "(\<exists>sa. captureScreen e (Some 0) (Some fmt) None sa = (Inr r, s')) \<or>
         (\<exists>iso sa. encode_captured_file e fmt
             (path_join e (screenshots_folder e) (application_filename app iso fmt)) sa
             = (Inr r, s'))"
  using assms
  by (auto simp: captureApplicationScreen_blocks io_bind_eq_Inr
      split: option.splits
      dest!: createScreenshotsFolder_Inr window_capture_or_fallback_Some)

text \<open>
  When a step at the operating system fails, \<^verbatim>\<open>captureApplicationScreen\<close> logs one
  line and becomes the full-screen capture of display 0 in the requested format, run in
  a later world with the same files; only a failure of that capture is thrown, wrapped.
\<close>

lemma fallback_when_os_step_fails:
  assumes mk: "mkdir_error e (tick s) (screenshots_folder e) = None"
    and fails: "os_step_fails e app fmt s"
  shows "\<exists>msg s1. tick s + 2 \<le> tick s1 \<and> files s1 = files s \<and>
           console s1 = console s @
             [''App-specific capture failed, falling back to full screen: Error: '' @ msg] \<and>
           captureApplicationScreen e app fmt s =
             try_catch (captureScreen e (Some 0) (Some fmt) None)
               (\<lambda>error. io_throw (''Failed to capture application screen: '' @ error)) s1"
proof (cases "window_script e (Suc (tick s)) app")
  case (ScriptFailed msg)
  let ?s1 = "(bump (bump (s\<lparr>dirs := insert (screenshots_folder e) (dirs s)\<rparr>)))
             \<lparr>console := console s @
                [''App-specific capture failed, falling back to full screen: Error: '' @ msg]\<rparr>"
  from mk ScriptFailed have "captureApplicationScreen e app fmt s =
             try_catch (captureScreen e (Some 0) (Some fmt) None)
               (\<lambda>error. io_throw (''Failed to capture application screen: '' @ error)) ?s1"
    by (simp add: captureApplicationScreen_blocks window_capture_or_fallback_def
        createScreenshotsFolder_def screenshots_folder_def [symmetric] Let_def
        try_catch_def io_bind_def io_return_def io_throw_def fs_mkdir_def bump_def
        new_Date_toISOString_def osascript_activate_def console_error_def
        split: prod.splits sum.splits)
  moreover have "tick s + 2 \<le> tick ?s1" "files ?s1 = files s"
     "console ?s1 = console s @
             [''App-specific capture failed, falling back to full screen: Error: '' @ msg]"
    by (simp_all add: bump_def)
  ultimately show ?thesis by blast
next
  case (WindowCount n)
  with fails obtain msg where sc: "screencapture_cmd e (Suc (Suc (tick s)))
                  (path_join e (screenshots_folder e)
                     (application_filename app (toISOString e (Suc (tick s))) fmt)) = Inl msg"
    by (auto simp: os_step_fails_def split: sum.splits)
  let ?s1 = "(bump (bump (bump (s\<lparr>dirs := insert (screenshots_folder e) (dirs s)\<rparr>))))
             \<lparr>console := console s @
                [''App-specific capture failed, falling back to full screen: Error: '' @ msg]\<rparr>"
  from mk WindowCount sc have "captureApplicationScreen e app fmt s =
             try_catch (captureScreen e (Some 0) (Some fmt) None)
               (\<lambda>error. io_throw (''Failed to capture application screen: '' @ error)) ?s1"
    by (simp add: captureApplicationScreen_blocks window_capture_or_fallback_def
        createScreenshotsFolder_def screenshots_folder_def [symmetric] Let_def
        try_catch_def io_bind_def io_return_def io_throw_def fs_mkdir_def bump_def
        new_Date_toISOString_def osascript_activate_def console_error_def
        settle_delay_def screencapture_def
        split: prod.splits sum.splits)
  moreover have "tick s + 2 \<le> tick ?s1" "files ?s1 = files s"
     "console ?s1 = console s @
             [''App-specific capture failed, falling back to full screen: Error: '' @ msg]"
    by (simp_all add: bump_def)
  ultimately show ?thesis by blast
qed

text \<open>
  The number of windows that the script reports is not read: whatever it is, as long
  as \<^verbatim>\<open>screencapture\<close> exits with status 0 nothing is logged, no fallback is taken,
  and a result, if any, carries the path named after the application.
\<close>

lemma window_count_is_not_read:
  assumes mk: "mkdir_error e (tick s) (screenshots_folder e) = None"
    and count: "window_script e (Suc (tick s)) app = WindowCount n"
    and captured: "screencapture_cmd e (Suc (Suc (tick s)))
                     (path_join e (screenshots_folder e)
                        (application_filename app (toISOString e (Suc (tick s))) fmt))
                   = Inr written"
  shows "console (snd (captureApplicationScreen e app fmt s)) = console s \<and>
         (\<forall>r. fst (captureApplicationScreen e app fmt s) = Inr r \<longrightarrow>
              path r = path_join e (screenshots_folder e)
                        (application_filename app (toISOString e (Suc (tick s))) fmt))"
  using assms
  by (auto simp: captureApplicationScreen_blocks window_capture_or_fallback_def
        encode_captured_file_def
        createScreenshotsFolder_def screenshots_folder_def [symmetric] Let_def
        try_catch_def io_bind_def io_return_def io_throw_def fs_mkdir_def bump_def
        new_Date_toISOString_def osascript_activate_def console_error_def
        settle_delay_def screencapture_def fs_readFile_def sharp_toBuffer_def fs_writeFile_def
        rejecting_def
        split: prod.splits sum.splits option.splits failure.splits)

text \<open>
  Claim C1, evaluated where it fails. Finder runs without a window: the script counts
  zero windows, prints \<^verbatim>\<open>false\<close> and ends normally. Nothing reads that answer, so no
  fallback is taken and nothing is logged: the window capture runs, and the result is
  the file named after the application, not the capture of display 0. When the window
  capture then exits without writing a file, an error is thrown although no full-screen
  capture was tried.
\<close>

theorem zero_windows_takes_no_fallback:
  "window_script demo_env (Suc (tick world0)) ''Finder'' = WindowCount 0 \<and>
   fst (captureApplicationScreen demo_env ''Finder'' PNG world0) =
     Inr \<lparr>path = ''/Users/me/Desktop/mcp-screenshots/Finder-2025-01-01T12-00-01-000Z.png'',
          base64 = ''iQcH'', buffer = [137, 7, 7]\<rparr> \<and>
   console (snd (captureApplicationScreen demo_env ''Finder'' PNG world0)) = [] \<and>
   fst (captureApplicationScreen (demo_env\<lparr>screencapture_cmd := \<lambda>t p. Inr None\<rparr>)
          ''Finder'' PNG world0) =
     Inl (Rejected
            (''Failed to capture application screen: ENOENT: no such file or directory, open ''
             @ quote @ ''/Users/me/Desktop/mcp-screenshots/Finder-2025-01-01T12-00-01-000Z.png''
             @ quote))"
  by (simp add: run_defs)

section \<open>Every capture result is on disk\<close>

lemma display_capture_written:
  assumes "\<not> truthy a" and "captureScreen e d f a s = (Inr r, s')"
  shows "files s' (path r) = Some (buffer r) \<and> base64 r = toString_base64 (buffer r)"
  using assms
  by (auto simp: captureScreen.simps io_bind_eq_Inr Let_def dest: fs_writeFile_Inr)

lemma application_capture_written:
  assumes "captureApplicationScreen e app fmt s = (Inr r, s')"
  shows "files s' (path r) = Some (buffer r) \<and> base64 r = toString_base64 (buffer r)"
proof -
  have none: "\<not> truthy None" by (simp add: truthy_def)
  show ?thesis
    using assms
    by (auto simp: captureApplicationScreen.simps io_bind_eq_Inr try_catch_eq_Inr Let_def
        split: option.splits
        dest: fs_writeFile_Inr display_capture_written [OF none])
qed

lemma capture_written:
  assumes "captureScreen e d f a s = (Inr r, s')"
  shows "files s' (path r) = Some (buffer r) \<and> base64 r = toString_base64 (buffer r)"
proof (cases "truthy a")
  case True
  with assms have "captureApplicationScreen e (the a) (or_default f PNG) s = (Inr r, s')"
    by (simp add: captureScreen.simps)
  then show ?thesis by (rule application_capture_written)
next
  case False
  then show ?thesis using assms by (rule display_capture_written)
qed

text \<open>
  Claim C2. Whenever a capture succeeds, through \<^verbatim>\<open>captureScreen\<close> (full screen or
  delegated to an application) or through \<^verbatim>\<open>captureApplicationScreen\<close> (window
  capture or fallback), the world in which the result is returned holds a file at the
  returned path whose content is the returned buffer, so of the same length, and the
  returned base64 text is the base64 encoding of that buffer.
\<close>

theorem capture_result_consistent:
  assumes "captureScreen e d f a s = (Inr r, s') \<or>
           captureApplicationScreen e app fmt s = (Inr r, s')"
  shows "files s' (path r) = Some (buffer r) \<and>
         length (the (files s' (path r))) = length (buffer r) \<and>
         base64 r = toString_base64 (buffer r)"
proof -
  have "files s' (path r) = Some (buffer r) \<and> base64 r = toString_base64 (buffer r)"
    using assms
  proof
    assume "captureScreen e d f a s = (Inr r, s')"
    then show ?thesis by (rule capture_written)
  next
    assume "captureApplicationScreen e app fmt s = (Inr r, s')"
    then show ?thesis by (rule application_capture_written)
  qed
  then show ?thesis by simp
qed

theorem capture_result_consistent_witness:
  "files (snd (captureScreen demo_env (Some 1) None None world0))
     ''/Users/me/Desktop/mcp-screenshots/screenshot-display-1-2025-01-01T12-00-03-000Z.png''
   = Some [137, 1, 2, 3]"
proof -
  have "fst (captureScreen demo_env (Some 1) None None world0) =
    Inr \<lparr>path = ''/Users/me/Desktop/mcp-screenshots/screenshot-display-1-2025-01-01T12-00-03-000Z.png'',
         base64 = ''iQECAw=='', buffer = [137, 1, 2, 3]\<rparr>"
    by (simp add: run_defs)
  note run = pair_from_fst [OF this]
  from capture_result_consistent [OF disjI1 [OF run], THEN conjunct1] show ?thesis by simp
qed

section \<open>Application name and display index\<close>

text \<open>
  Claim C3, as the code has it. \<^verbatim>\<open>if (applicationName)\<close> tests the name for
  truthiness: a name that is not the empty string sends \<^verbatim>\<open>captureScreen\<close> to
  \<^verbatim>\<open>captureApplicationScreen\<close> whatever the display index is, so two requests that
  differ in the display index only behave alike; the empty string is treated as an
  absent name, and the display index is then used.
\<close>

theorem application_name_takes_precedence:
  "(a \<noteq> [] \<longrightarrow>
      captureScreen e d f (Some a) = captureApplicationScreen e a (or_default f PNG) \<and>
      captureScreen e d f (Some a) = captureScreen e d' f (Some a)) \<and>
   captureScreen e d f (Some []) = captureScreen e d f None"
  by (auto simp: captureScreen.simps truthy_def)

theorem application_name_takes_precedence_witness:
  "''Safari'' \<noteq> [] \<and>
   captureScreen demo_env (Some 7) None (Some ''Safari'') =
     captureApplicationScreen demo_env ''Safari'' PNG \<and>
   captureScreen demo_env (Some 7) None (Some ''Safari'') =
     captureScreen demo_env (Some 0) None (Some ''Safari'')"
  using application_name_takes_precedence [of "''Safari''" demo_env "Some 7" None "Some 0"]
  by (auto simp: or_default_def)

text \<open>
  Claim C3 as stated fails for a name that is present and empty: the requests for
  display 1 and for display 0 give different captures, each of its own display, and
  neither is what \<^verbatim>\<open>captureApplicationScreen\<close> gives for that name.
\<close>

theorem application_name_counterexample:
  "fst (captureScreen demo_env (Some 1) (Some PNG) (Some []) world0) =
     Inr \<lparr>path = ''/Users/me/Desktop/mcp-screenshots/screenshot-display-1-2025-01-01T12-00-03-000Z.png'',
          base64 = ''iQECAw=='', buffer = [137, 1, 2, 3]\<rparr> \<and>
   fst (captureScreen demo_env (Some 0) (Some PNG) (Some []) world0) =
     Inr \<lparr>path = ''/Users/me/Desktop/mcp-screenshots/screenshot-display-0-2025-01-01T12-00-03-000Z.png'',
          base64 = ''iQACAw=='', buffer = [137, 0, 2, 3]\<rparr> \<and>
   fst (captureApplicationScreen demo_env [] PNG world0) =
     Inr \<lparr>path = ''/Users/me/Desktop/mcp-screenshots/screenshot-display-0-2025-01-01T12-00-05-000Z.png'',
          base64 = ''iQACAw=='', buffer = [137, 0, 2, 3]\<rparr>"
  by (simp add: run_defs)

section \<open>The path returned by the fallback\<close>

lemma display_capture_path:
  assumes "\<not> truthy a" and "captureScreen e d f a s = (Inr r, s')"
  shows "path r = path_join e (screenshots_folder e)
           (fullscreen_filename (or_default d 0) (toISOString e (tick s' - 1))
              (or_default f PNG)) \<and>
         tick s' = tick s + 4"
  using assms
  by (auto simp: captureScreen.simps io_bind_eq_Inr Let_def fullscreen_filename_def
      screenshot_def sharp_toBuffer_def createScreenshotsFolder_def screenshots_folder_def
      fs_mkdir_def new_Date_toISOString_def fs_writeFile_def bump_def
      split: option.splits)

text \<open>A capture for an application cannot succeed unless its folder was created.\<close>

lemma application_capture_needs_folder:
  assumes "captureApplicationScreen e app fmt s = (Inr r, s')"
  shows "mkdir_error e (tick s) (screenshots_folder e) = None"
proof (rule ccontr)
  assume "mkdir_error e (tick s) (screenshots_folder e) \<noteq> None"
  then obtain msg where "mkdir_error e (tick s) (screenshots_folder e) = Some msg"
    by auto
  then have "fst (captureApplicationScreen e app fmt s) =
               Inl (Rejected (''Failed to capture application screen: ''
                              @ ''Failed to create screenshots folder: '' @ msg))"
    by (simp add: captureApplicationScreen_blocks createScreenshotsFolder_def
        screenshots_folder_def [symmetric] Let_def try_catch_def io_bind_def io_throw_def
        fs_mkdir_def)
  with assms show False by simp
qed

text \<open>
  Claim C10, as the code has it. When the fallback is taken and succeeds, the returned
  path is the screenshots folder joined with
  \<^verbatim>\<open>screenshot-display-0-<timestamp>.<ext>\<close>, where the timestamp is the one read
  by the fallback just before it wrote the file, at least four calls after the timestamp
  of the application-named path was read: the path is built from the folder, that time
  and the format, and the application name takes no part in it.
\<close>

theorem fallback_path_is_fullscreen_name:
  assumes fails: "os_step_fails e app fmt s"
    and ok: "captureApplicationScreen e app fmt s = (Inr r, s')"
  shows "path r = path_join e (screenshots_folder e)
           (fullscreen_filename 0 (toISOString e (tick s' - 1)) fmt) \<and>
         tick s + 5 < tick s'"
proof -
  note mk = application_capture_needs_folder [OF ok]
  from fallback_when_os_step_fails [OF mk fails] obtain msg s1 where
    t: "tick s + 2 \<le> tick s1"
    and eq: "captureApplicationScreen e app fmt s =
             try_catch (captureScreen e (Some 0) (Some fmt) None)
               (\<lambda>error. io_throw (''Failed to capture application screen: '' @ error)) s1"
    by blast
  from eq ok have "try_catch (captureScreen e (Some 0) (Some fmt) None)
               (\<lambda>error. io_throw (''Failed to capture application screen: '' @ error)) s1
         = (Inr r, s')"
    by (simp only:)
  then have c: "captureScreen e (Some 0) (Some fmt) None s1 = (Inr r, s')"
    by (simp only: try_catch_rethrow_eq_Inr)
  have "\<not> truthy None" by (simp add: truthy_def)
  from display_capture_path [OF this c] t show ?thesis
    by (simp add: or_default_def)
qed

theorem fallback_path_is_fullscreen_name_witness:
  "path_join demo_env (screenshots_folder demo_env)
     (fullscreen_filename 0 (toISOString demo_env 5) PNG) =
   ''/Users/me/Desktop/mcp-screenshots/screenshot-display-0-2025-01-01T12-00-05-000Z.png'' \<and>
   tick (snd (captureApplicationScreen demo_env ''Notes'' PNG world0)) = 6"
proof -
  have fails: "os_step_fails demo_env ''Notes'' PNG world0"
    by (simp add: os_step_fails_def demo_env_def)
  have "fst (captureApplicationScreen demo_env ''Notes'' PNG world0) =
     Inr \<lparr>path = ''/Users/me/Desktop/mcp-screenshots/screenshot-display-0-2025-01-01T12-00-05-000Z.png'',
          base64 = ''iQACAw=='', buffer = [137, 0, 2, 3]\<rparr>"
    by (simp add: run_defs)
  note run = pair_from_fst [OF this]
  have t: "tick (snd (captureApplicationScreen demo_env ''Notes'' PNG world0)) = 6"
    by (simp add: run_defs)
  from fallback_path_is_fullscreen_name [OF fails run] t show ?thesis
    by simp
qed

text \<open>
  Claim C10 as stated fails for an application whose name occurs in the full-screen
  file name: activating \<^verbatim>\<open>display\<close> fails, the fallback is taken, and the returned path
  contains the application name.
\<close>

theorem fallback_path_counterexample:
  "os_step_fails demo_env ''display'' JPG world0 \<and>
   fst (captureApplicationScreen demo_env ''display'' JPG world0) =
     Inr \<lparr>path = ''/Users/me/Desktop/mcp-screenshots/screenshot-display-0-2025-01-01T12-00-05-000Z.jpg'',
          base64 = ''/wACAw=='', buffer = [255, 0, 2, 3]\<rparr> \<and>
   sublist ''display''
     ''/Users/me/Desktop/mcp-screenshots/screenshot-display-0-2025-01-01T12-00-05-000Z.jpg''"
proof -
  have "sublist ''display''
          (''/Users/me/Desktop/mcp-screenshots/screenshot-'' @ ''display''
           @ ''-0-2025-01-01T12-00-05-000Z.jpg'')"
    by (rule sublist_appendI)
  then show ?thesis
    by (simp add: run_defs os_step_fails_def)
qed

section \<open>Text recognition\<close>

lemma extractTextFromImage_blocks:
  "extractTextFromImage e input l =
     io_bind (createWorker e (or_default l ''eng'')) (\<lambda>worker.
       try_finally (recognize_input e input worker) (worker_terminate e worker))"
  unfolding extractTextFromImage_def recognize_input_def
  by (rule refl)

text \<open>
  Reading, preprocessing and recognition neither create nor terminate a worker nor
  write a file, and their failures are rejections, which the \<^verbatim>\<open>catch\<close> wraps.
\<close>

lemma recognize_input_keeps_workers:
  assumes "recognize_input e input w s = (r, s')"
  shows "created s' = created s \<and> terminate_calls s' = terminate_calls s \<and>
         files s' = files s \<and> settled r"
  using assms
  by (cases w)
     (auto simp: recognize_input_def try_catch_def io_bind_def io_return_def io_throw_def
        fs_readFile_def bump_def sharp_greyscale_normalize_sharpen_def rejecting_def
        settled_def
        split: prod.splits sum.splits image_input.splits option.splits failure.splits)

text \<open>
  Claim C5. When \<^verbatim>\<open>createWorker\<close> succeeds, then however \<^verbatim>\<open>extractTextFromImage\<close>
  ends (with a text or with the error of reading, preprocessing, recognition or
  termination), exactly one worker has been created and \<^verbatim>\<open>terminate\<close> has been called
  exactly once more, on that worker. When \<^verbatim>\<open>createWorker\<close> fails, in whichever way,
  there is no worker: none is created, none is terminated, and the failure is the
  result.
\<close>

theorem worker_released_exactly_once:
  assumes "extractTextFromImage e input l s = (r, s')"
  shows "(createWorker_error e (tick s) (or_default l ''eng'') = None \<longrightarrow>
            created s' = Suc (created s) \<and>
            terminate_calls s' = terminate_calls s @ [created s]) \<and>
         (createWorker_error e (tick s) (or_default l ''eng'') \<noteq> None \<longrightarrow>
            created s' = created s \<and> terminate_calls s' = terminate_calls s \<and>
            r = Inl (the (createWorker_error e (tick s) (or_default l ''eng''))))"
proof (cases "createWorker_error e (tick s) (or_default l ''eng'')")
  case None
  let ?w = "Worker (created s) (or_default l ''eng'')"
  let ?s1 = "bump (s\<lparr>created := Suc (created s)\<rparr>)"
  from None have cw: "createWorker e (or_default l ''eng'') s = (Inr ?w, ?s1)"
    by (simp add: createWorker_def)
  obtain r1 s2 where body: "recognize_input e input ?w ?s1 = (r1, s2)"
    by (cases "recognize_input e input ?w ?s1") auto
  from recognize_input_keeps_workers [OF body]
  have c: "created s2 = Suc (created s)" and t: "terminate_calls s2 = terminate_calls s"
    and "settled r1"
    by (simp_all add: bump_def)
  from try_finally_settled
         [where m = "recognize_input e input ?w" and s = ?s1, OF body \<open>settled r1\<close>]
       cw assms
  have "(case worker_terminate e ?w s2 of
           (Inl failed, s3) \<Rightarrow> (Inl failed, s3)
         | (Inr u, s3) \<Rightarrow> (r1, s3)) = (r, s')"
    by (simp add: extractTextFromImage_blocks io_bind_def)
  then have "s' = snd (worker_terminate e ?w s2)"
    by (auto split: prod.splits sum.splits)
  with c t
  have "created s' = Suc (created s) \<and> terminate_calls s' = terminate_calls s @ [created s]"
    by (auto simp: bump_def split: option.splits)
  with None show ?thesis by simp
next
  case (Some failed)
  with assms show ?thesis
    by (auto simp: extractTextFromImage_def io_bind_def createWorker_def bump_def)
qed

theorem worker_released_exactly_once_witness:
  "fst (extractTextFromImage demo_env (FromPath ''/nowhere.png'') None world0) =
     Inl (Rejected
            (''Failed to extract text from image: ENOENT: no such file or directory, open ''
             @ quote @ ''/nowhere.png'' @ quote)) \<and>
   created (snd (extractTextFromImage demo_env (FromPath ''/nowhere.png'') None world0)) = 1 \<and>
   terminate_calls (snd (extractTextFromImage demo_env (FromPath ''/nowhere.png'') None world0))
     = [0] \<and>
   terminate_calls
     (snd (extractTextFromImage unloadable_env (FromBuffer [1]) (Some ''xx'') world0)) = []"
proof -
  have 1: "fst (extractTextFromImage demo_env (FromPath ''/nowhere.png'') None world0) =
     Inl (Rejected
            (''Failed to extract text from image: ENOENT: no such file or directory, open ''
             @ quote @ ''/nowhere.png'' @ quote))"
    by (simp add: run_defs)
  have 2: "createWorker_error demo_env (tick world0) (or_default None ''eng'') = None"
    by (simp add: demo_env_def)
  have 3: "createWorker_error unloadable_env (tick world0) (or_default (Some ''xx'') ''eng'')
             \<noteq> None"
    by (simp add: unloadable_env_def or_default_def)
  from worker_released_exactly_once
         [where e = demo_env and input = "FromPath ''/nowhere.png''" and l = None and s = world0,
          OF surjective_pairing] 2
  have "created (snd (extractTextFromImage demo_env (FromPath ''/nowhere.png'') None world0)) = 1"
    and "terminate_calls (snd (extractTextFromImage demo_env (FromPath ''/nowhere.png'') None world0)) = [0]"
    by (simp_all add: world0_def)
  moreover
  from worker_released_exactly_once
         [where e = unloadable_env and input = "FromBuffer [1]" and l = "Some ''xx''"
            and s = world0,
          OF surjective_pairing] 3
  have "terminate_calls
     (snd (extractTextFromImage unloadable_env (FromBuffer [1]) (Some ''xx'') world0)) = []"
    by (simp add: world0_def)
  ultimately show ?thesis using 1 by simp
qed

subsection \<open>Trimming\<close>

lemma white_space_nonempty: "w \<in> set white_space \<Longrightarrow> w \<noteq> []"
  by (auto simp: white_space_def)

lemma leading_zero_iff:
  assumes "\<forall>w \<in> set ws. w \<noteq> []"
  shows "leading ws s = 0 \<longleftrightarrow> (\<forall>w \<in> set ws. \<not> prefix w s)"
  using assms
  by (auto simp: leading_def find_None_iff find_Some_iff split: option.splits)



lemma strip_fixed: "leading ws s = 0 \<Longrightarrow> strip ws s = s"
  by (simp add: strip.simps)






lemma trim_trimmed: "trimmed n \<Longrightarrow> trim n = n"
proof -
  assume t: "trimmed n"
  have ne: "\<forall>w \<in> set white_space. w \<noteq> []" by (simp add: white_space_nonempty)
  then have ner: "\<forall>w \<in> set (map rev white_space). w \<noteq> []" by simp
  from t have "leading white_space n = 0"
    by (simp add: leading_zero_iff [OF ne] trimmed_def)
  then have 1: "strip white_space n = n" by (rule strip_fixed)
  from t have "\<forall>w \<in> set (map rev white_space). \<not> prefix w (rev n)"
    by (auto simp: trimmed_def suffix_to_prefix)
  then have "leading (map rev white_space) (rev n) = 0"
    by (simp only: leading_zero_iff [OF ner])
  then have "strip (map rev white_space) (rev n) = rev n" by (rule strip_fixed)
  with 1 show ?thesis by (simp add: trim_def)
qed

subsection \<open>The text returned\<close>

lemma recognize_input_Inr:
  assumes "recognize_input e input (Worker k lang) s = (Inr t, s')"
  shows "\<exists>image k1 k2 prepared out.
           (case input of FromBuffer b \<Rightarrow> image = b | FromPath p \<Rightarrow> files s p = Some image) \<and>
           sharp_preprocess e k1 image = Inr prepared \<and>
           recognize_lib e k2 lang prepared = Inr out \<and> t = trim out"
  using assms
  by (auto simp: recognize_input_def io_bind_eq_Inr fs_readFile_def bump_def
        sharp_greyscale_normalize_sharpen_def
        split: option.splits image_input.splits)

text \<open>
  A text returned by \<^verbatim>\<open>extractTextFromImage\<close> is the trimmed output of a recognition
  run on the preprocessed input, and no file has changed.
\<close>

lemma extracted_text_shape:
  assumes "extractTextFromImage e input l s = (Inr t, s')"
  shows "files s' = files s \<and>
         (\<exists>image k1 k2 prepared out.
            (case input of FromBuffer b \<Rightarrow> image = b | FromPath p \<Rightarrow> files s p = Some image) \<and>
            sharp_preprocess e k1 image = Inr prepared \<and>
            recognize_lib e k2 (or_default l ''eng'') prepared = Inr out \<and> t = trim out)"
proof -
  let ?w = "Worker (created s) (or_default l ''eng'')"
  from assms obtain w s1 where cw: "createWorker e (or_default l ''eng'') s = (Inr w, s1)"
    and tf: "try_finally (recognize_input e input w) (worker_terminate e w) s1 = (Inr t, s')"
    by (auto simp: extractTextFromImage_blocks io_bind_eq_Inr)
  from cw have w: "w = ?w" and f1: "files s1 = files s"
    by (auto simp: createWorker_def bump_def split: option.splits)
  from tf obtain s2 u where body: "recognize_input e input w s1 = (Inr t, s2)"
    and fin: "worker_terminate e w s2 = (Inr u, s')"
    by (auto simp: try_finally_eq_Inr)
  from recognize_input_keeps_workers [OF body] have f2: "files s2 = files s1" by simp
  from fin w have f3: "files s' = files s2"
    by (auto simp: bump_def split: option.splits)
  from recognize_input_Inr [OF body [unfolded w]]
  have "\<exists>image k1 k2 prepared out.
            (case input of FromBuffer b \<Rightarrow> image = b | FromPath p \<Rightarrow> files s p = Some image) \<and>
            sharp_preprocess e k1 image = Inr prepared \<and>
            recognize_lib e k2 (or_default l ''eng'') prepared = Inr out \<and> t = trim out"
    by (simp only: f1)
  with f1 f2 f3 show ?thesis by simp
qed





section \<open>The combined operation captures in PNG\<close>

lemma display_capture_format:
  assumes "\<not> truthy a" and "captureScreen e d f a s = (Inr r, s')"
  shows "(\<exists>k raw. sharp_encode e k (or_default f PNG) raw = Inr (buffer r)) \<and>
         (\<exists>nm. path r = path_join e (screenshots_folder e)
                           (nm @ ''.'' @ format_text (or_default f PNG)))"
proof -
  from assms obtain imageBuffer s1 s2 folder s3 iso s4 where
    enc: "sharp_toBuffer e (or_default f PNG) imageBuffer s1 = (Inr (buffer r), s2)"
    and dir: "createScreenshotsFolder e s2 = (Inr folder, s3)"
    and p: "path r = path_join e folder
              (''screenshot-display-'' @ number_text (or_default d 0) @ ''-'' @
               replace_colon_dot iso @ ''.'' @ format_text (or_default f PNG))"
    by (auto simp: captureScreen.simps io_bind_eq_Inr Let_def)
  from enc have "sharp_encode e (tick s1) (or_default f PNG) imageBuffer = Inr (buffer r)"
    by (simp add: sharp_toBuffer_def)
  moreover from p createScreenshotsFolder_Inr [OF dir]
  have "path r = path_join e (screenshots_folder e)
          ((''screenshot-display-'' @ number_text (or_default d 0) @ ''-'' @
            replace_colon_dot iso) @ ''.'' @ format_text (or_default f PNG))"
    by simp
  ultimately show ?thesis by blast
qed

lemma application_capture_format:
  assumes "captureApplicationScreen e app fmt s = (Inr r, s')"
  shows "(\<exists>k raw. sharp_encode e k fmt raw = Inr (buffer r)) \<and>
         (\<exists>nm. path r = path_join e (screenshots_folder e) (nm @ ''.'' @ format_text fmt))"
  using application_capture_cases [OF assms]
proof (elim disjE exE)
  fix sa
  assume "captureScreen e (Some 0) (Some fmt) None sa = (Inr r, s')"
  moreover have "\<not> truthy None" by (simp add: truthy_def)
  ultimately show ?thesis
    using display_capture_format [of None e "Some 0" "Some fmt" sa r s']
    by (simp add: or_default_def)
next
  fix iso sa
  assume "encode_captured_file e fmt
             (path_join e (screenshots_folder e) (application_filename app iso fmt)) sa
             = (Inr r, s')"
  from encode_captured_file_Inr [OF this]
  have "path r = path_join e (screenshots_folder e)
                   ((app @ ''-'' @ replace_colon_dot iso) @ ''.'' @ format_text fmt)"
    and "\<exists>k raw. sharp_encode e k fmt raw = Inr (buffer r)"
    by (simp_all add: application_filename_def)
  then show ?thesis by blast
qed

lemma capture_format:
  assumes "captureScreen e d f a s = (Inr r, s')"
  shows "(\<exists>k raw. sharp_encode e k (or_default f PNG) raw = Inr (buffer r)) \<and>
         (\<exists>nm. path r = path_join e (screenshots_folder e)
                           (nm @ ''.'' @ format_text (or_default f PNG)))"
proof (cases "truthy a")
  case True
  with assms have "captureApplicationScreen e (the a) (or_default f PNG) s = (Inr r, s')"
    by (simp add: captureScreen.simps)
  then show ?thesis by (rule application_capture_format)
next
  case False
  then show ?thesis using assms by (rule display_capture_format)
qed

text \<open>
  The tool \<^verbatim>\<open>capture_screen_and_extract_text\<close> does not read a \<^verbatim>\<open>format\<close> argument.
\<close>

lemma combined_tool_ignores_format:
  "tool_switch e ''capture_screen_and_extract_text'' (args\<lparr>format_arg := f\<rparr>) =
   tool_switch e ''capture_screen_and_extract_text'' args"
  by (simp add: tool_switch_def)

text \<open>
  Claim C4. \<^verbatim>\<open>captureScreenAndExtractText\<close> has no format parameter and asks
  \<^verbatim>\<open>captureScreen\<close> for \<^verbatim>\<open>png\<close>. So whenever it succeeds, on the full screen, on an
  application window or through the fallback, the returned buffer is an output of the
  PNG encoder, the returned path is in the screenshots folder with the extension
  \<^verbatim>\<open>.png\<close>, the file at that path holds that buffer, the base64 text encodes it, and
  the returned text is the trimmed recognition of that buffer, preprocessed.
\<close>

theorem combined_capture_is_lossless:
  assumes "captureScreenAndExtractText e d l a s = (Inr (t, shot), s')"
  shows "(\<exists>k raw. sharp_encode e k PNG raw = Inr (buffer shot)) \<and>
         (\<exists>nm. path shot = path_join e (screenshots_folder e) (nm @ ''.png'')) \<and>
         files s' (path shot) = Some (buffer shot) \<and>
         base64 shot = toString_base64 (buffer shot) \<and>
         (\<exists>k1 k2 img out.
            sharp_preprocess e k1 (buffer shot) = Inr img \<and>
            recognize_lib e k2 (or_default l ''eng'') img = Inr out \<and> t = trim out)"
proof -
  from assms obtain s1 where
    cap: "captureScreen e (Some (or_default d 0)) (Some PNG) a s = (Inr shot, s1)"
    and ext: "extractTextFromImage e (FromBuffer (buffer shot))
                (Some (or_default l ''eng'')) s1 = (Inr t, s')"
    by (auto simp: captureScreenAndExtractText_def io_bind_eq_Inr)
  from capture_format [OF cap]
  have "\<exists>k raw. sharp_encode e k PNG raw = Inr (buffer shot)"
    and "\<exists>nm. path shot = path_join e (screenshots_folder e) (nm @ ''.png'')"
    by (simp_all add: or_default_def)
  moreover from capture_written [OF cap] extracted_text_shape [OF ext]
  have "files s' (path shot) = Some (buffer shot)"
    and "base64 shot = toString_base64 (buffer shot)"
    by simp_all
  moreover from extracted_text_shape [OF ext]
  have "\<exists>k1 k2 img out.
            sharp_preprocess e k1 (buffer shot) = Inr img \<and>
            recognize_lib e k2 (or_default l ''eng'') img = Inr out \<and> t = trim out"
    by (auto simp: or_default_def)
  ultimately show ?thesis by blast
qed

theorem combined_capture_is_lossless_witness:
  "fst (captureScreenAndExtractText demo_env None None (Some ''Safari'') world0) =
     Inr (''HELLO WORLD'',
          \<lparr>path = ''/Users/me/Desktop/mcp-screenshots/Safari-2025-01-01T12-00-01-000Z.png'',
           base64 = ''iQcH'', buffer = [137, 7, 7]\<rparr>) \<and>
   files (snd (captureScreenAndExtractText demo_env None None (Some ''Safari'') world0))
     ''/Users/me/Desktop/mcp-screenshots/Safari-2025-01-01T12-00-01-000Z.png'' = Some [137, 7, 7]"
proof -
  have 1: "fst (captureScreenAndExtractText demo_env None None (Some ''Safari'') world0) =
     Inr (''HELLO WORLD'',
          \<lparr>path = ''/Users/me/Desktop/mcp-screenshots/Safari-2025-01-01T12-00-01-000Z.png'',
           base64 = ''iQcH'', buffer = [137, 7, 7]\<rparr>)"
    by (simp add: run_defs trim_defs)
  from combined_capture_is_lossless
         [OF pair_from_fst [OF 1], THEN conjunct2, THEN conjunct2, THEN conjunct1]
  have "files (snd (captureScreenAndExtractText demo_env None None (Some ''Safari'') world0))
     ''/Users/me/Desktop/mcp-screenshots/Safari-2025-01-01T12-00-01-000Z.png'' = Some [137, 7, 7]"
    by simp
  with 1 show ?thesis by (simp only: simp_thms)
qed

section \<open>The list of running applications\<close>

lemma plain_nameD:
  "plain_name n \<Longrightarrow> n \<noteq> [] \<and> trimmed n \<and> \<not> sublist '', '' n"
  by (simp add: plain_name_def)

lemma split_without_separator:
  "\<not> sublist '', '' x \<Longrightarrow> split_comma_space acc x = [rev acc @ x]"
proof (induction acc x rule: split_comma_space.induct)
  case (3 acc c d cs)
  from "3.prems" have np: "\<not> (c = CHR '','' \<and> d = CHR '' '')"
    and ns: "\<not> sublist '', '' (d # cs)"
    by (auto simp: sublist_Cons_right)
  with "3.IH" show ?case by auto
qed simp_all

lemma split_at_separator:
  "\<not> sublist '', '' x \<Longrightarrow>
   split_comma_space acc (x @ '', '' @ y) = (rev acc @ x) # split_comma_space [] y"
proof (induction x arbitrary: acc)
  case Nil
  then show ?case by simp
next
  case (Cons c x)
  from Cons.prems have ns: "\<not> sublist '', '' x"
    by (auto simp: sublist_Cons_right)
  show ?case
  proof (cases x)
    case Nil
    then show ?thesis by simp
  next
    case (Cons d x')
    with Cons.prems have "\<not> (c = CHR '','' \<and> d = CHR '' '')"
      by (auto simp: sublist_Cons_right)
    with Cons.IH [OF ns, of "c # acc"] Cons show ?thesis by auto
  qed
qed

text \<open>Splitting undoes joining when no item contains the separator.\<close>

lemma split_join:
  "ns \<noteq> [] \<Longrightarrow> \<forall>n \<in> set ns. \<not> sublist '', '' n \<Longrightarrow>
   split_comma_space [] (join_with '', '' ns) = ns"
proof (induction "'', ''" ns rule: join_with.induct)
  case 1
  then show ?case by simp
next
  case (2 x)
  then show ?case by (simp add: split_without_separator)
next
  case (3 x y ys)
  then show ?case using split_at_separator [of x "[]" "join_with '', '' (y # ys)"] by simp
qed

text \<open>
  A word that does not start a string does not start it either when the string goes
  on with a character that no word has after its first place.
\<close>

lemma no_prefix_append:
  assumes x: "x \<noteq> []"
    and no: "\<forall>w \<in> set ws. \<not> prefix w x"
    and tails: "\<forall>w \<in> set ws. d \<notin> set (tl w)"
  shows "\<forall>w \<in> set ws. \<not> prefix w (x @ d # y)"
proof (intro ballI notI)
  fix w assume w: "w \<in> set ws" and p: "prefix w (x @ d # y)"
  from p have "prefix w x \<or> (\<exists>us. w = x @ us \<and> prefix us (d # y))"
    by (simp add: prefix_append)
  with no w obtain us where us: "w = x @ us" and pu: "prefix us (d # y)" by blast
  from us no w have "us \<noteq> []" by auto
  with pu obtain us' where "us = d # us'" by (cases us) auto
  with us x have "d \<in> set (tl w)" by (cases x) auto
  with tails w show False by blast
qed

text \<open>
  After its first byte the encoding of a white space code point holds no comma, space
  or line feed, read forwards or backwards.
\<close>

lemma white_space_tails:
  "w \<in> set white_space \<Longrightarrow> c \<in> set (tl w) \<Longrightarrow> c \<notin> {CHR '','', CHR '' '', CHR 0x0A}"
  unfolding white_space_def set_simps insert_iff empty_iff
  by (elim disjE FalseE; simp; blast?)

lemma rev_white_space_tails:
  "w \<in> set (map rev white_space) \<Longrightarrow> c \<in> set (tl w) \<Longrightarrow>
   c \<notin> {CHR '','', CHR '' '', CHR 0x0A}"
  unfolding white_space_def list.map rev.simps append.simps set_simps insert_iff empty_iff
  by (elim disjE FalseE; simp; blast?)

lemma trim_line: "n \<noteq> [] \<Longrightarrow> trimmed n \<Longrightarrow> trim (n @ newline) = n"
proof -
  assume n: "n \<noteq> []" and t: "trimmed n"
  have ne: "\<forall>w \<in> set white_space. w \<noteq> []" by (simp add: white_space_nonempty)
  from t have "\<forall>w \<in> set white_space. \<not> prefix w n" by (simp add: trimmed_def)
  moreover have "\<forall>w \<in> set white_space. CHR 0x0A \<notin> set (tl w)"
    using white_space_tails by blast
  ultimately have "\<forall>w \<in> set white_space. \<not> prefix w (n @ CHR 0x0A # [])"
    using n by (intro no_prefix_append)
  then have "leading white_space (n @ newline) = 0"
    by (simp add: leading_zero_iff [OF ne] newline_def)
  then have 1: "strip white_space (n @ newline) = n @ newline" by (rule strip_fixed)
  have "leading (map rev white_space) (CHR 0x0A # rev n) = 1"
    by (simp add: leading_def white_space_def)
  then have 2: "strip (map rev white_space) (CHR 0x0A # rev n) =
                strip (map rev white_space) (rev n)"
    by (simp add: strip.simps [of _ "CHR 0x0A # rev n"])
  have ner: "\<forall>w \<in> set (map rev white_space). w \<noteq> []" using ne by simp
  from t have "\<forall>w \<in> set (map rev white_space). \<not> prefix w (rev n)"
    by (auto simp: trimmed_def suffix_to_prefix)
  then have "leading (map rev white_space) (rev n) = 0"
    by (simp only: leading_zero_iff [OF ner])
  then have "strip (map rev white_space) (rev n) = rev n" by (rule strip_fixed)
  with 1 2 show ?thesis by (simp add: trim_def newline_def)
qed

lemma join_head:
  "join_with sep (n # ns) = n @ (if ns = [] then [] else sep @ join_with sep ns)"
  by (cases ns) simp_all

lemma join_snoc:
  "join_with sep (xs @ [x]) = (if xs = [] then x else join_with sep xs @ sep @ x)"
  by (induction sep xs rule: join_with.induct) auto

lemma join_last:
  assumes "ns \<noteq> []"
  shows "join_with sep ns =
           (if butlast ns = [] then last ns else join_with sep (butlast ns) @ sep @ last ns)"
proof -
  from assms have "ns = butlast ns @ [last ns]" by simp
  then have "join_with sep ns = join_with sep (butlast ns @ [last ns])" by simp
  then show ?thesis by (simp only: join_snoc)
qed

text \<open>Plain names joined start as the first of them and end as the last.\<close>

lemma join_plain:
  assumes ne: "ns \<noteq> []" and plain: "\<forall>n \<in> set ns. plain_name n"
  shows "join_with '', '' ns \<noteq> [] \<and> trimmed (join_with '', '' ns)"
proof -
  from ne obtain n ns' where ns: "ns = n # ns'" by (cases ns) auto
  with plain have n: "n \<noteq> []" and tn: "trimmed n" by (auto dest: plain_nameD)
  from ne plain have "plain_name (last ns)" by simp
  then have l: "last ns \<noteq> []" and tl: "trimmed (last ns)"
    by (simp_all add: plain_nameD)
  have nonempty: "join_with '', '' ns \<noteq> []"
    using ns n by (simp add: join_head)
  have start: "\<forall>w \<in> set white_space. \<not> prefix w (join_with '', '' ns)"
  proof (cases "ns' = []")
    case True
    with ns tn show ?thesis by (simp add: trimmed_def)
  next
    case False
    have "\<forall>w \<in> set white_space.
            \<not> prefix w (n @ CHR '','' # CHR '' '' # join_with '', '' ns')"
    proof (rule no_prefix_append [OF n])
      show "\<forall>w \<in> set white_space. \<not> prefix w n" using tn by (simp add: trimmed_def)
      show "\<forall>w \<in> set white_space. CHR '','' \<notin> set (tl w)" using white_space_tails by blast
    qed
    with False ns show ?thesis by (simp add: join_head)
  qed
  have finish: "\<forall>w \<in> set white_space. \<not> suffix w (join_with '', '' ns)"
  proof (cases "butlast ns = []")
    case True
    with ne tl show ?thesis by (simp add: join_last trimmed_def)
  next
    case False
    have "\<forall>w \<in> set (map rev white_space).
            \<not> prefix w (rev (last ns) @ CHR '' '' # CHR '','' #
                         rev (join_with '', '' (butlast ns)))"
    proof (rule no_prefix_append)
      show "rev (last ns) \<noteq> []" using l by simp
      show "\<forall>w \<in> set (map rev white_space). \<not> prefix w (rev (last ns))"
        using tl by (auto simp: trimmed_def suffix_to_prefix)
      show "\<forall>w \<in> set (map rev white_space). CHR '' '' \<notin> set (tl w)"
        using rev_white_space_tails by blast
    qed
    then have "\<forall>w \<in> set white_space.
            \<not> prefix (rev w) (rev (last ns) @ CHR '' '' # CHR '','' #
                               rev (join_with '', '' (butlast ns)))"
      by simp
    with False ne show ?thesis by (simp add: join_last suffix_to_prefix)
  qed
  from nonempty start finish show ?thesis by (simp add: trimmed_def)
qed

lemma map_trim_plain: "\<forall>n \<in> set ns. plain_name n \<Longrightarrow> map trim ns = ns"
  by (induction ns) (auto simp: plain_name_def trim_trimmed)

lemma names_map_with_index: "map name (map_with_index k ns) = ns"
  by (induction k ns rule: map_with_index.induct) auto

lemma length_map_with_index: "length (map_with_index k ns) = length ns"
  by (induction k ns rule: map_with_index.induct) auto

lemma pid_map_with_index: "i < length ns \<Longrightarrow> pid (map_with_index k ns ! i) = k + i"
proof (induction k ns arbitrary: i rule: map_with_index.induct)
  case (2 index n ns)
  then show ?case by (cases i) auto
qed simp

text \<open>
  Claim C7, as the code has it. When the query succeeds, \<^verbatim>\<open>getRunningApplications\<close>
  returns one descriptor for each piece of the trimmed output between the separators
  \<^verbatim>\<open>", "\<close>, named by the trimmed piece, and the \<^verbatim>\<open>pid\<close> of each descriptor is its
  position in the returned list. Nothing removes duplicates: when at least one name is
  reported and every name is plain (not empty, without white space at its ends and
  without the separator), the names returned are the names reported, in order and as
  often as reported, so the length is the number of names reported.
\<close>

theorem running_applications_by_position:
  assumes "process_script e (tick s) = Inr names"
  shows "\<exists>apps. getRunningApplications e s = (Inr apps, bump s) \<and>
           map name apps =
             map trim (split_comma_space [] (trim (join_with '', '' names @ newline))) \<and>
           (\<forall>i < length apps. pid (apps ! i) = i) \<and>
           (names \<noteq> [] \<and> (\<forall>n \<in> set names. plain_name n) \<longrightarrow>
              map name apps = names \<and> length apps = length names)"
proof -
  let ?fields = "map trim (split_comma_space [] (trim (join_with '', '' names @ newline)))"
  let ?apps = "map_with_index 0 ?fields"
  from assms have run: "getRunningApplications e s = (Inr ?apps, bump s)"
    by (simp add: getRunningApplications_def osascript_processes_def try_catch_def io_bind_def
        io_return_def Let_def)
  have "names \<noteq> [] \<and> (\<forall>n \<in> set names. plain_name n) \<longrightarrow> ?fields = names"
  proof
    assume h: "names \<noteq> [] \<and> (\<forall>n \<in> set names. plain_name n)"
    then have "join_with '', '' names \<noteq> []" and "trimmed (join_with '', '' names)"
      using join_plain [of names] by simp_all
    then have "trim (join_with '', '' names @ newline) = join_with '', '' names"
      by (simp add: trim_line)
    moreover from h have "split_comma_space [] (join_with '', '' names) = names"
      by (intro split_join) (auto dest: plain_nameD)
    ultimately show "?fields = names" using h by (simp add: map_trim_plain)
  qed
  then have "names \<noteq> [] \<and> (\<forall>n \<in> set names. plain_name n) \<longrightarrow>
               map name ?apps = names \<and> length ?apps = length names"
    by (simp add: names_map_with_index length_map_with_index)
  moreover have "map name ?apps = ?fields" by (simp add: names_map_with_index)
  moreover have "\<forall>i < length ?apps. pid (?apps ! i) = i"
    by (simp add: pid_map_with_index length_map_with_index)
  ultimately show ?thesis using run by blast
qed

theorem running_applications_by_position_witness:
  "\<exists>apps. getRunningApplications demo_env world0 = (Inr apps, bump world0) \<and>
          map name apps = [''Finder'', ''Safari'', ''Finder''] \<and> length apps = 3"
proof -
  have 1: "process_script demo_env (tick world0) = Inr [''Finder'', ''Safari'', ''Finder'']"
    by (simp add: demo_env_def)
  have 2: "[''Finder'', ''Safari'', ''Finder''] \<noteq> [] \<and>
           (\<forall>n \<in> set [''Finder'', ''Safari'', ''Finder'']. plain_name n)"
    by (simp add: plain_name_def trimmed_def white_space_def suffix_to_prefix sublist_code)
  from running_applications_by_position [OF 1] 2 show ?thesis
    by auto
qed

text \<open>
  Claim C7 as stated fails when two processes have the same name: the query reports
  Finder, Safari and Finder, two distinct names, and three descriptors are returned.
\<close>

theorem running_applications_counterexample:
  "process_script demo_env (tick world0) = Inr [''Finder'', ''Safari'', ''Finder''] \<and>
   fst (getRunningApplications demo_env world0) =
     Inr [\<lparr>name = ''Finder'', pid = 0\<rparr>, \<lparr>name = ''Safari'', pid = 1\<rparr>,
          \<lparr>name = ''Finder'', pid = 2\<rparr>] \<and>
   length [\<lparr>name = ''Finder'', pid = 0\<rparr>, \<lparr>name = ''Safari'', pid = 1\<rparr>,
           \<lparr>name = ''Finder'', pid = (2::nat)\<rparr>]
     \<noteq> card (set [''Finder'', ''Safari'', ''Finder''])"
proof -
  have "set [''Finder'', ''Safari'', ''Finder''] = {''Finder'', ''Safari''}"
    by auto
  then have "card (set [''Finder'', ''Safari'', ''Finder'']) = 2"
    by simp
  then show ?thesis
    by (simp add: run_defs trim_defs)
qed

section \<open>The tool handler\<close>

text \<open>
  Claim C8. A call of \<^verbatim>\<open>capture_application_screen\<close> without \<^verbatim>\<open>applicationName\<close>, and
  a call of \<^verbatim>\<open>extract_text\<close> without \<^verbatim>\<open>imagePath\<close>, is answered with the error
  response that names the missing parameter, in a world that differs from the initial
  one by the logged error line only: no call to the operating system or to a library
  is made, no directory or file is touched and no worker is created.
\<close>

theorem missing_parameter_fails_before_io:
  "(applicationName_arg args = None \<longrightarrow>
      call_tool_handler e ''capture_application_screen'' args s =
        (Inr \<lparr>content = [TextContent (''Error executing tool '' @ quote
                                       @ ''capture_application_screen'' @ quote
                                       @ '': applicationName is required'')],
              isError = True\<rparr>,
         s\<lparr>console := console s @ [''Error executing tool '' @ quote
                                    @ ''capture_application_screen'' @ quote
                                    @ '': applicationName is required'']\<rparr>)) \<and>
   (imagePath_arg args = None \<longrightarrow>
      call_tool_handler e ''extract_text'' args s =
        (Inr \<lparr>content = [TextContent (''Error executing tool '' @ quote @ ''extract_text''
                                       @ quote @ '': imagePath is required'')],
              isError = True\<rparr>,
         s\<lparr>console := console s @ [''Error executing tool '' @ quote @ ''extract_text''
                                    @ quote @ '': imagePath is required'']\<rparr>))"
  by (simp add: call_tool_handler_def tool_switch_def try_catch_def io_throw_def io_bind_def
      console_error_format_def console_error_def io_return_def truthy_def quote_def)

theorem missing_parameter_fails_before_io_witness:
  "applicationName_arg no_arguments = None \<and> imagePath_arg no_arguments = None \<and>
   snd (call_tool_handler demo_env ''capture_application_screen'' no_arguments world0) =
     world0\<lparr>console := [''Error executing tool '' @ quote @ ''capture_application_screen''
                         @ quote @ '': applicationName is required'']\<rparr> \<and>
   snd (call_tool_handler demo_env ''extract_text'' no_arguments world0) =
     world0\<lparr>console := [''Error executing tool '' @ quote @ ''extract_text''
                         @ quote @ '': imagePath is required'']\<rparr>"
  using missing_parameter_fails_before_io [of no_arguments demo_env world0]
  by (simp add: no_arguments_def world0_def)




end
